theory Spec2Isabelle
  imports Complex_Main
begin

section \<open>Values exchanged with the chain SDK\<close>

text \<open>
  The service builds Cardano transactions through the Mesh SDK. The SDK, the wallet and the
  chain provider are external; the model keeps of them what \<^verbatim>\<open>mesh.adapter.ts\<close> touches.

  A token quantity is a decimal string in the source (\<^verbatim>\<open>quantity: '1'\<close>, \<^verbatim>\<open>'-1'\<close>). The model
  writes the integer the string denotes. Where the source turns such a string into a JavaScript
  number (\<^verbatim>\<open>Number(quantity)\<close>) the model applies \<open>js_Number\<close>, which rounds as a double does,
  and where it turns a number back into a string (\<^verbatim>\<open>String(x)\<close>) the model applies \<open>js_String\<close>,
  which gives the integer that the digits printed for the double denote.
\<close>

record asset =
  unit :: string
  quantity :: int

text \<open>
  The SDK's \<^verbatim>\<open>Data\<close>, as far as the source builds it and hands it to the transaction
  builder: a constructor with fields (\<^verbatim>\<open>mConStr0\<close>, \<^verbatim>\<open>mConStr1\<close>), a map from JavaScript strings
  to JavaScript strings, and an integer. These are values in memory. How the SDK serialises
  them to CBOR when the transaction is completed (which bytes it writes for a string) is
  outside this repository and is not modelled; no statement below reads such a value back.
\<close>

datatype plutus_data =
    PConstr nat "plutus_data list"
  | PMap "(string \<times> string) list"
  | PInt int

definition mConStr0 :: "plutus_data list \<Rightarrow> plutus_data" where
  "mConStr0 fs = PConstr 0 fs"

definition mConStr1 :: "plutus_data list \<Rightarrow> plutus_data" where
  "mConStr1 fs = PConstr 1 fs"

text \<open>
  \<^verbatim>\<open>metadataToCip68\<close> on a \<^verbatim>\<open>Record<string, string>\<close>: constructor 0 over the map of the
  object's entries (in the order of \<^verbatim>\<open>Object.keys\<close>) and the version number 1.
\<close>

definition metadataToCip68 :: "(string \<times> string) list \<Rightarrow> plutus_data" where
  "metadataToCip68 metadata = PConstr 0 [PMap metadata, PInt 1]"

definition hexdigit :: "nat \<Rightarrow> char" where
  "hexdigit n = ''0123456789abcdef'' ! n"

definition stringToHex :: "string \<Rightarrow> string" where
  "stringToHex s = concat (map (\<lambda>c. [hexdigit (of_char c div 16), hexdigit (of_char c mod 16)]) s)"

definition CIP68_100 :: "string \<Rightarrow> string" where
  "CIP68_100 tokenNameHex = ''000643b0'' @ tokenNameHex"

definition CIP68_222 :: "string \<Rightarrow> string" where
  "CIP68_222 tokenNameHex = ''000de140'' @ tokenNameHex"

record tx_input =
  outputIndex :: nat
  txHash :: string

text \<open>
  The inline datum of a UTxO is a CBOR hex string, which the adapter reads with
  \<^verbatim>\<open>cbor.decodeFirst\<close>. \<open>cbor\<close> is what that call returns for the datums of the store, as far
  as the adapter looks into it: a tag over an array (\<^verbatim>\<open>Tagged\<close>, with the array as its
  \<^verbatim>\<open>value\<close>; a Plutus constructor is encoded so, constructor 0 with tag 121), a map from byte
  strings to byte strings, and an integer. A byte string (a \<^verbatim>\<open>Buffer\<close>) is the list of its
  bytes. The package returns a map that has an entry as a JavaScript \<^verbatim>\<open>Map\<close> holding the
  entries in their order (the keys are buffers, so equal keys do not merge), and a map
  without entries as a plain object.
\<close>

datatype cbor =
    Tagged nat "cbor list"
  | CMap "(string \<times> string) list"
  | CInt int

text \<open>
  A UTxO as the provider returns it. The model holds in \<^verbatim>\<open>plutusData\<close> the value the CBOR
  hex string decodes to, and \<open>None\<close> when the output has no inline datum.
\<close>

record tx_output =
  address :: string
  amount :: "asset list"
  plutusData :: "cbor option"

record utxo =
  input :: tx_input
  "output" :: tx_output

record address_parts =
  pubKeyHash :: string
  scriptHash :: string
  stakeCredentialHash :: string

datatype address_obj = ScriptAddress string string bool

record plutus_script =
  code :: string
  version :: string

subsection \<open>JavaScript numbers\<close>

text \<open>
  \<^verbatim>\<open>Number(s)\<close> of a decimal integer string is the double nearest to the integer (ties to
  the even significand), and \<^verbatim>\<open>a + b\<close> on two doubles is the double nearest to the exact sum.
  An integer-valued double is written as the integer it equals. \<open>ulp m\<close> is the spacing of
  the doubles around magnitude \<open>m\<close>: 1 below \<open>2^53\<close>, doubling with every further bit. The
  overflow to \<^verbatim>\<open>Infinity\<close> (beyond \<open>2^1024\<close>) is outside the model.
\<close>

function ulp :: "int \<Rightarrow> int" where
  "ulp m = (if m < 2 ^ 53 then 1 else 2 * ulp (m div 2))"
  by pat_completeness auto
termination
  by (relation "measure (\<lambda>m. nat m)") auto

definition round53 :: "int \<Rightarrow> int" where
  "round53 n =
     (let m = \<bar>n\<bar>; u = ulp m; q = m div u; r = m mod u
      in sgn n * (if u < 2 * r \<or> (2 * r = u \<and> odd q) then (q + 1) * u else q * u))"

definition js_Number :: "int \<Rightarrow> int" where
  "js_Number q = round53 q"

definition js_plus :: "int \<Rightarrow> int \<Rightarrow> int" where
  "js_plus a b = round53 (a + b)"

text \<open>
  \<^verbatim>\<open>String(x)\<close> of an integer-valued double prints the shortest decimal numeral that
  \<^verbatim>\<open>Number\<close> reads back as \<open>x\<close>, and the one nearest to \<open>x\<close> when several are as short:
  \<^verbatim>\<open>String(2**57)\<close> is \<^verbatim>\<open>'144115188075855870'\<close>, not the digits of \<open>2^57\<close>. From \<open>10^21\<close> on
  the numeral is printed with an exponent (\<^verbatim>\<open>'1e+21'\<close>). \<open>js_String x\<close> is the integer the
  printed numeral denotes. \<open>shortest m e\<close> looks for it among the multiples of \<open>10^e\<close>,
  then of \<open>10^(e-1)\<close>, and so on: \<open>lo\<close> and \<open>hi\<close> are the two multiples around \<open>m\<close>, and a
  multiple is printed for \<open>m\<close> when it rounds to \<open>m\<close>. \<open>digits10 m\<close> is the number of decimal
  digits of \<open>m\<close>, the largest exponent worth trying.
\<close>

function digits10 :: "int \<Rightarrow> nat" where
  "digits10 m = (if m < 10 then 1 else Suc (digits10 (m div 10)))"
  by pat_completeness auto
termination
  by (relation "measure (\<lambda>m. nat m)") auto

fun shortest :: "int \<Rightarrow> nat \<Rightarrow> int" where
  "shortest m 0 = m"
| "shortest m (Suc e) =
     (let p = 10 ^ Suc e; lo = (m div p) * p; hi = lo + p
      in if round53 lo = m \<and> (round53 hi \<noteq> m \<or> m - lo \<le> hi - m) then lo
         else if round53 hi = m then hi
         else shortest m e)"

definition js_String :: "int \<Rightarrow> int" where
  "js_String x = sgn x * shortest \<bar>x\<bar> (digits10 \<bar>x\<bar>)"

subsection \<open>Errors\<close>

text \<open>
  A thrown \<^verbatim>\<open>new Error(message)\<close> is \<open>Error message\<close>; a property read on
  \<^verbatim>\<open>undefined\<close> or \<^verbatim>\<open>null\<close>, and a loop over a value that is not iterable, is \<open>TypeError\<close>.
\<close>

datatype error = Error string | TypeError

fun join :: "string \<Rightarrow> string list \<Rightarrow> string" where
  "join sep [] = []"
| "join sep [x] = x"
| "join sep (x # y # ys) = x @ sep @ join sep (y # ys)"

section \<open>The transaction builder of the SDK\<close>

text \<open>
  The SDK's \<^verbatim>\<open>MeshTxBuilder\<close> is a fluent, stateful object: every call records one
  instruction and returns the builder. Its state is the list of the calls made so far;
  \<^verbatim>\<open>complete()\<close> balances and serialises them (external, see \<open>complete\<close> below).
\<close>

datatype instr =
    MintPlutusScriptV3
  | Mint int string string
  | MintingScript string
  | MintRedeemerValue plutus_data
  | SpendingPlutusScriptV3
  | TxIn string nat
  | TxInInlineDatumPresent
  | TxInRedeemerValue plutus_data
  | TxInScript string
  | TxOut string "asset list"
  | TxOutInlineDatumValue plutus_data
  | ChangeAddress string
  | RequiredSignerHash string
  | SelectUtxosFrom "utxo list"
  | TxInCollateral string nat "asset list" string
  | SetNetwork string

section \<open>Configuration: SDK functions, constants and the compiled contract\<close>

record validator =
  title :: string
  compiledCode :: string

record plutus =
  validators :: "validator list"

text \<open>
  What the adapter imports and this repository does not define: the pure functions of the
  SDK, the constants \<^verbatim>\<open>APP_NETWORK_ID\<close>, \<^verbatim>\<open>APP_NETWORK\<close>, \<^verbatim>\<open>title.store\<close>, \<^verbatim>\<open>title.mint\<close>, and
  the compiled contract \<^verbatim>\<open>plutus.json\<close>. They are parameters of the model.
  \<open>serializePlutusScript\<close> stands for
  \<^verbatim>\<open>serializePlutusScript(script, undefined, networkId, false).address\<close>.
\<close>

record config =
  deserializeAddress :: "string \<Rightarrow> address_parts"
  applyParamsToScript :: "string \<Rightarrow> string list \<Rightarrow> string"
  serializePlutusScript :: "plutus_script \<Rightarrow> nat \<Rightarrow> string"
  serializeAddressObj :: "address_obj \<Rightarrow> nat \<Rightarrow> string"
  resolveScriptHash :: "string \<Rightarrow> string \<Rightarrow> string"
  complete :: "instr list \<Rightarrow> error + string"
  APP_NETWORK_ID :: nat
  APP_NETWORK :: string
  title_store :: string
  title_mint :: string
  plutus_json :: plutus

section \<open>MeshAdapter\<close>

record wallet =
  getUtxos :: "utxo list"
  getCollateral :: "utxo list"
  getChangeAddress :: string

text \<open>
  The fields of a \<^verbatim>\<open>MeshAdapter\<close> instance. \<open>fetchAddressUTxOs\<close> is the one method of the
  fetcher the adapter calls: the UTxOs at an address, optionally only those holding a unit.
  It is a function: the chain answers a query the same way throughout one call of the
  builder. The builder field \<^verbatim>\<open>meshTxBuilder\<close> is mutable and is passed separately, as a
  state.
\<close>

record adapter =
  fetchAddressUTxOs :: "string \<Rightarrow> string option \<Rightarrow> utxo list"
  meshWallet :: wallet
  mintCompileCode :: string
  mintScriptCbor :: string
  mintScript :: plutus_script
  policyId :: string
  storeCompileCode :: string
  storeScriptCbor :: string
  storeScript :: plutus_script
  storeAddress :: string

definition readValidator :: "plutus \<Rightarrow> string \<Rightarrow> error + string" where
  "readValidator pl t =
     (case find (\<lambda>v. title v = t) (validators pl) of
        None \<Rightarrow> Inl (Error (t @ '' validator not found.''))
      | Some v \<Rightarrow> Inr (compiledCode v))"

text \<open>
  The constructor. Its arguments besides the configuration are the fetcher and the wallet
  the instance keeps, the course and the issuer address.
\<close>

definition MeshAdapter ::
  "config \<Rightarrow> (string \<Rightarrow> string option \<Rightarrow> utxo list) \<Rightarrow> wallet \<Rightarrow> string \<Rightarrow> string \<Rightarrow> error + adapter" where
  "MeshAdapter cfg fetch w course issuer =
     (case readValidator (plutus_json cfg) (title_store cfg) of
        Inl e \<Rightarrow> Inl e
      | Inr storeCompile \<Rightarrow>
          let storeCbor = applyParamsToScript cfg storeCompile
                [course, pubKeyHash (deserializeAddress cfg issuer),
                 stakeCredentialHash (deserializeAddress cfg issuer)];
              storeScr = \<lparr>code = storeCbor, version = ''V3''\<rparr>;
              storeAddr = serializeAddressObj cfg
                (ScriptAddress
                   (scriptHash (deserializeAddress cfg
                      (serializePlutusScript cfg storeScr (APP_NETWORK_ID cfg))))
                   (stakeCredentialHash (deserializeAddress cfg issuer))
                   False)
                (APP_NETWORK_ID cfg)
          in (case readValidator (plutus_json cfg) (title_mint cfg) of
               Inl e \<Rightarrow> Inl e
             | Inr mintCompile \<Rightarrow>
                 let mintCbor = applyParamsToScript cfg mintCompile
                       [course, pubKeyHash (deserializeAddress cfg issuer),
                        stakeCredentialHash (deserializeAddress cfg issuer),
                        scriptHash (deserializeAddress cfg storeAddr),
                        stakeCredentialHash (deserializeAddress cfg storeAddr)]
                 in Inr \<lparr>fetchAddressUTxOs = fetch, meshWallet = w,
                         mintCompileCode = mintCompile, mintScriptCbor = mintCbor,
                         mintScript = \<lparr>code = mintCbor, version = ''V3''\<rparr>,
                         policyId = resolveScriptHash cfg mintCbor ''V3'',
                         storeCompileCode = storeCompile, storeScriptCbor = storeCbor,
                         storeScript = storeScr, storeAddress = storeAddr\<rparr>))"

definition getWalletForTx :: "adapter \<Rightarrow> error + (utxo list \<times> utxo \<times> string)" where
  "getWalletForTx ad =
     (let utxos = getUtxos (meshWallet ad);
          collaterals = getCollateral (meshWallet ad);
          walletAddress = getChangeAddress (meshWallet ad)
      in if utxos = [] then Inl (Error ''No UTXOs found in getWalletForTx method.'')
         else case collaterals of
                [] \<Rightarrow> Inl (Error ''No collateral found in getWalletForTx method.'')
              | c # _ \<Rightarrow>
                  if walletAddress = [] then Inl (Error ''No wallet address found in getWalletForTx method.'')
                  else Inr (utxos, c, walletAddress))"

text \<open>\<^verbatim>\<open>utxos[utxos.length - 1]\<close>: the last element, \<^verbatim>\<open>undefined\<close> on an empty list.\<close>

definition getAddressUTXOAsset :: "adapter \<Rightarrow> string \<Rightarrow> string \<Rightarrow> utxo option" where
  "getAddressUTXOAsset ad addr u =
     (let utxos = fetchAddressUTxOs ad addr (Some u)
      in if utxos = [] then None else Some (last utxos))"

definition getAddressUTXOAssets :: "adapter \<Rightarrow> string \<Rightarrow> string \<Rightarrow> utxo list" where
  "getAddressUTXOAssets ad addr u = fetchAddressUTxOs ad addr (Some u)"

definition getUtxoForTx :: "adapter \<Rightarrow> string \<Rightarrow> string \<Rightarrow> error + utxo" where
  "getUtxoForTx ad addr h =
     (case find (\<lambda>u. txHash (input u) = h) (fetchAddressUTxOs ad addr None) of
        None \<Rightarrow> Inl (Error ''No UTXOs found in getUtxoForTx method.'')
      | Some u \<Rightarrow> Inr u)"

text \<open>
  \<^verbatim>\<open>decoded.value[0]\<close>: the first element of the array under a tag (\<^verbatim>\<open>undefined\<close>, here
  \<open>None\<close>, when the array is empty); a map and a number have no \<^verbatim>\<open>value\<close> and the index
  read throws.
\<close>

fun value0 :: "cbor \<Rightarrow> error + cbor option" where
  "value0 (Tagged _ []) = Inr None"
| "value0 (Tagged _ (x # _)) = Inr (Some x)"
| "value0 _ = Inl TypeError"

text \<open>\<^verbatim>\<open>value.toString('hex')\<close> of a buffer: two lower-case hexadecimal digits per byte.\<close>

definition toString_hex :: "string \<Rightarrow> string" where
  "toString_hex bytes = concat (map (\<lambda>b. [hexdigit (of_char b div 16), hexdigit (of_char b mod 16)]) bytes)"

text \<open>
  \<open>getPkHash\<close> loops over the entries of the first field: the value, in hex, of the first
  entry whose key reads \<^verbatim>\<open>_pk\<close> as UTF-8 (which a key does exactly when its bytes are those
  of \<^verbatim>\<open>_pk\<close>), and \<^verbatim>\<open>null\<close>, here \<open>None\<close>, when there is none. The loop throws on what is not
  iterable: \<^verbatim>\<open>undefined\<close>, a number, a tagged value, and the plain object an empty map is
  decoded to. The argument \<open>None\<close> is \<^verbatim>\<open>undefined\<close>, on which \<^verbatim>\<open>Buffer.from\<close> throws.
\<close>

definition getPkHash :: "cbor option \<Rightarrow> error + string option" where
  "getPkHash datum =
     (case datum of
        None \<Rightarrow> Inl TypeError
      | Some d \<Rightarrow>
          (case value0 d of
             Inl e \<Rightarrow> Inl e
           | Inr (Some (CMap kvs)) \<Rightarrow>
               if kvs = [] then Inl TypeError
               else Inr (map_option (\<lambda>(k, v). toString_hex v) (find (\<lambda>(k, v). k = ''_pk'') kvs))
           | Inr _ \<Rightarrow> Inl TypeError))"

section \<open>MeshTxBuilder: mint, update, burn\<close>

text \<open>
  \<^verbatim>\<open>await Promise.all(params.map(async (p) => ...))\<close>: one callback per element, all sharing
  the builder. A callback of the source awaits its lookups first and then runs to its end
  without another await, so its effect on the shared state is one step; the model takes the
  callbacks in list order. A callback that throws has changed nothing (every \<^verbatim>\<open>throw\<close> of
  the source comes before the first builder call of its callback), which is the result type
  \<open>error + 's\<close>. The other callbacks still run; \<^verbatim>\<open>Promise.all\<close> rejects with the first error.
  The callbacks of \<open>mint\<close>, \<open>update\<close> and \<open>burn\<close>, anonymous in the source, are
  \<open>mint_asset\<close>, \<open>update_asset\<close> and \<open>burn_asset\<close>.
\<close>

fun promise_all :: "('a \<Rightarrow> 's \<Rightarrow> error + 's) \<Rightarrow> 'a list \<Rightarrow> 's \<Rightarrow> error option \<times> 's" where
  "promise_all f [] s = (None, s)"
| "promise_all f (x # xs) s =
     (case f x s of
        Inl e \<Rightarrow> (Some e, snd (promise_all f xs s))
      | Inr s' \<Rightarrow> promise_all f xs s')"

record mint_param =
  assetName :: string
  metadata :: "(string \<times> string) list"
  quantity :: int
  receiver :: string

record update_param =
  assetName :: string
  metadata :: "(string \<times> string) list"
  txHash :: "string option"

record burn_param =
  assetName :: string
  quantity :: int
  txHash :: "string option"

text \<open>
  \<^verbatim>\<open>txOutReceiverMap\<close>, a JavaScript \<^verbatim>\<open>Map\<close> from receiver address to asset list: the
  entries in insertion order. \<open>receiver_push\<close> is the \<^verbatim>\<open>has\<close>/\<^verbatim>\<open>get(..).push\<close>/\<^verbatim>\<open>set\<close> step.
\<close>

type_synonym receiver_map = "(string \<times> asset list) list"

definition receiver_push :: "receiver_map \<Rightarrow> string \<Rightarrow> asset \<Rightarrow> receiver_map" where
  "receiver_push m k a =
     (case map_of m k of
        Some _ \<Rightarrow> map (\<lambda>(k', as). if k' = k then (k', as @ [a]) else (k', as)) m
      | None \<Rightarrow> m @ [(k, [a])])"

text \<open>\<^verbatim>\<open>!!utxo?.output?.plutusData\<close>\<close>

definition hasPlutusData :: "utxo option \<Rightarrow> bool" where
  "hasPlutusData u = (case u of None \<Rightarrow> False | Some x \<Rightarrow> plutusData (output x) \<noteq> None)"

definition mint_asset ::
  "config \<Rightarrow> adapter \<Rightarrow> string \<Rightarrow> bool \<Rightarrow> bool \<Rightarrow> mint_param \<Rightarrow> instr list \<times> receiver_map
     \<Rightarrow> error + instr list \<times> receiver_map" where
  "mint_asset cfg ad walletAddress allExist allNew p s =
     (case s of (unsignedTx, txOutReceiverMap) \<Rightarrow>
        let existUtXOwithUnit = getAddressUTXOAsset ad (storeAddress ad)
              (policyId ad @ CIP68_100 (stringToHex (mint_param.assetName p)))
        in if allExist then
             (case getPkHash (case existUtXOwithUnit of None \<Rightarrow> None | Some u \<Rightarrow> plutusData (output u)) of
                Inl e \<Rightarrow> Inl e
              | Inr pk \<Rightarrow>
                  if pk \<noteq> Some (pubKeyHash (deserializeAddress cfg walletAddress))
                  then Inl (Error (mint_param.assetName p @ '' has been exist''))
                  else
                    let receiverKey = (if receiver p \<noteq> [] then receiver p else walletAddress)
                    in Inr (unsignedTx @
                              [MintPlutusScriptV3,
                               Mint (mint_param.quantity p) (policyId ad)
                                 (CIP68_222 (stringToHex (mint_param.assetName p))),
                               MintingScript (mintScriptCbor ad),
                               MintRedeemerValue (mConStr0 [])],
                            receiver_push txOutReceiverMap receiverKey
                              \<lparr>unit = policyId ad @ CIP68_222 (stringToHex (mint_param.assetName p)),
                               asset.quantity = mint_param.quantity p\<rparr>))
           else if allNew then
             (let receiverKey = (if receiver p \<noteq> [] then receiver p else walletAddress)
              in Inr (unsignedTx @
                        [MintPlutusScriptV3,
                         Mint (mint_param.quantity p) (policyId ad)
                           (CIP68_222 (stringToHex (mint_param.assetName p))),
                         MintingScript (mintScriptCbor ad),
                         MintRedeemerValue (mConStr0 []),
                         MintPlutusScriptV3,
                         Mint 1 (policyId ad) (CIP68_100 (stringToHex (mint_param.assetName p))),
                         MintingScript (mintScriptCbor ad),
                         MintRedeemerValue (mConStr0 []),
                         TxOut (storeAddress ad)
                           [\<lparr>unit = policyId ad @ CIP68_100 (stringToHex (mint_param.assetName p)),
                             asset.quantity = 1\<rparr>],
                         TxOutInlineDatumValue (metadataToCip68 (mint_param.metadata p))],
                      receiver_push txOutReceiverMap receiverKey
                        \<lparr>unit = policyId ad @ CIP68_222 (stringToHex (mint_param.assetName p)),
                         asset.quantity = mint_param.quantity p\<rparr>))
           else Inl (Error ''Transaction only supports either minting new assets or minting existing assets, not both in the same transaction''))"

text \<open>
  \<open>mint\<close> returns what the call returns or throws, and the state of the builder when all its
  callbacks have run. \<open>utxosInput\<close> is the optional second argument.
\<close>

definition mint ::
  "config \<Rightarrow> adapter \<Rightarrow> mint_param list \<Rightarrow> utxo list option \<Rightarrow> instr list
     \<Rightarrow> (error + string) \<times> instr list" where
  "mint cfg ad params utxosInput meshTxBuilder =
     (case getWalletForTx ad of
        Inl e \<Rightarrow> (Inl e, meshTxBuilder)
      | Inr (utxos, collateral, walletAddress) \<Rightarrow>
          let unsignedTx = meshTxBuilder @ [MintPlutusScriptV3] @
                (case utxosInput of
                   None \<Rightarrow> []
                 | Some us \<Rightarrow> map (\<lambda>u. TxIn (tx_input.txHash (input u)) (outputIndex (input u))) us);
              assetsWithUtxo = map (\<lambda>p.
                  let u = getAddressUTXOAsset ad (storeAddress ad)
                            (policyId ad @ CIP68_100 (stringToHex (mint_param.assetName p)))
                  in (mint_param.assetName p, hasPlutusData u, u)) params;
              allExist = list_all (\<lambda>(n, h, u). h) assetsWithUtxo;
              allNew = list_all (\<lambda>(n, h, u). \<not> h) assetsWithUtxo
          in if \<not> allExist \<and> \<not> allNew then
               (let existAssets = map (\<lambda>(n, h, u). n) (filter (\<lambda>(n, h, u). h) assetsWithUtxo)
                in (Inl (Error (''Transaction only supports either minting new or existing assets.''
                          @ [CHR 0x0A] @ ''Assets already exist: '' @ join '', '' existAssets)),
                    unsignedTx))
             else
               (case promise_all (mint_asset cfg ad walletAddress allExist allNew) params (unsignedTx, []) of
                  (Some e, (tx, txOutReceiverMap)) \<Rightarrow> (Inl e, tx)
                | (None, (tx, txOutReceiverMap)) \<Rightarrow>
                    let tx' = tx @ map (\<lambda>(receiver, assets). TxOut receiver assets) txOutReceiverMap @
                          [ChangeAddress walletAddress,
                           RequiredSignerHash (pubKeyHash (deserializeAddress cfg walletAddress)),
                           SelectUtxosFrom utxos,
                           TxInCollateral (tx_input.txHash (input collateral)) (outputIndex (input collateral))
                             (amount (output collateral)) (address (output collateral)),
                           SetNetwork (APP_NETWORK cfg)]
                    in (complete cfg tx', tx')))"

text \<open>
  The store UTxO of an asset, as \<open>update\<close> and \<open>burn\<close> look it up: by transaction hash when
  one is given (\<^verbatim>\<open>txHash ? ... : ...\<close>, so an empty string counts as none), else the last UTxO
  at the store address holding the reference token.
\<close>

definition locateStoreUtxo :: "adapter \<Rightarrow> string \<Rightarrow> string option \<Rightarrow> error + utxo" where
  "locateStoreUtxo ad name h =
     (case (if h \<noteq> None \<and> h \<noteq> Some []
            then (case getUtxoForTx ad (storeAddress ad) (case h of Some t \<Rightarrow> t | None \<Rightarrow> []) of
                    Inl e \<Rightarrow> Inl e
                  | Inr u \<Rightarrow> Inr (Some u))
            else Inr (getAddressUTXOAsset ad (storeAddress ad)
                        (policyId ad @ CIP68_100 (stringToHex name)))) of
        Inl e \<Rightarrow> Inl e
      | Inr None \<Rightarrow> Inl (Error ''Store UTXO not found'')
      | Inr (Some storeUtxo) \<Rightarrow> Inr storeUtxo)"

definition update_asset :: "adapter \<Rightarrow> update_param \<Rightarrow> instr list \<Rightarrow> error + instr list" where
  "update_asset ad p unsignedTx =
     (case locateStoreUtxo ad (update_param.assetName p) (update_param.txHash p) of
        Inl e \<Rightarrow> Inl e
      | Inr storeUtxo \<Rightarrow>
          Inr (unsignedTx @
                 [SpendingPlutusScriptV3,
                  TxIn (tx_input.txHash (input storeUtxo)) (outputIndex (input storeUtxo)),
                  TxInInlineDatumPresent,
                  TxInRedeemerValue (mConStr0 []),
                  TxInScript (storeScriptCbor ad),
                  TxOut (storeAddress ad)
                    [\<lparr>unit = policyId ad @ CIP68_100 (stringToHex (update_param.assetName p)),
                      asset.quantity = 1\<rparr>],
                  TxOutInlineDatumValue (metadataToCip68 (update_param.metadata p))]))"

text \<open>The closing calls of \<open>update\<close> and \<open>burn\<close>, the same in both.\<close>

definition finalize :: "config \<Rightarrow> utxo list \<Rightarrow> utxo \<Rightarrow> string \<Rightarrow> instr list" where
  "finalize cfg utxos collateral walletAddress =
     [RequiredSignerHash (pubKeyHash (deserializeAddress cfg walletAddress)),
      ChangeAddress walletAddress,
      SelectUtxosFrom utxos,
      TxInCollateral (tx_input.txHash (input collateral)) (outputIndex (input collateral))
        (amount (output collateral)) (address (output collateral)),
      SetNetwork (APP_NETWORK cfg)]"

definition update ::
  "config \<Rightarrow> adapter \<Rightarrow> update_param list \<Rightarrow> instr list \<Rightarrow> (error + string) \<times> instr list" where
  "update cfg ad params meshTxBuilder =
     (case getWalletForTx ad of
        Inl e \<Rightarrow> (Inl e, meshTxBuilder)
      | Inr (utxos, collateral, walletAddress) \<Rightarrow>
          (case promise_all (update_asset ad) params meshTxBuilder of
             (Some e, tx) \<Rightarrow> (Inl e, tx)
           | (None, tx) \<Rightarrow>
               let tx' = tx @ finalize cfg utxos collateral walletAddress
               in (complete cfg tx', tx')))"

text \<open>The nested \<^verbatim>\<open>reduce\<close> of \<open>burn\<close>: the user tokens of the asset the wallet holds.\<close>

definition heldAmount :: "utxo list \<Rightarrow> string \<Rightarrow> int" where
  "heldAmount userUtxos u =
     foldl (\<lambda>amount utxos.
              js_plus amount
                (foldl (\<lambda>amt a. if unit a = u then js_plus amt (js_Number (asset.quantity a)) else amt)
                   0 (tx_output.amount (output utxos))))
       0 userUtxos"

definition burn_asset :: "adapter \<Rightarrow> string \<Rightarrow> burn_param \<Rightarrow> instr list \<Rightarrow> error + instr list" where
  "burn_asset ad walletAddress p unsignedTx =
     (let userUtxos = getAddressUTXOAssets ad walletAddress
            (policyId ad @ CIP68_222 (stringToHex (burn_param.assetName p)));
          amount = heldAmount userUtxos (policyId ad @ CIP68_222 (stringToHex (burn_param.assetName p)))
      in case locateStoreUtxo ad (burn_param.assetName p) (burn_param.txHash p) of
           Inl e \<Rightarrow> Inl e
         | Inr storeUtxo \<Rightarrow>
             if - js_Number (burn_param.quantity p) = amount then
               Inr (unsignedTx @
                      [MintPlutusScriptV3,
                       Mint (burn_param.quantity p) (policyId ad)
                         (CIP68_222 (stringToHex (burn_param.assetName p))),
                       MintRedeemerValue (mConStr1 []),
                       MintingScript (mintScriptCbor ad),
                       MintPlutusScriptV3,
                       Mint (- 1) (policyId ad) (CIP68_100 (stringToHex (burn_param.assetName p))),
                       MintRedeemerValue (mConStr1 []),
                       MintingScript (mintScriptCbor ad),
                       SpendingPlutusScriptV3,
                       TxIn (tx_input.txHash (input storeUtxo)) (outputIndex (input storeUtxo)),
                       TxInInlineDatumPresent,
                       TxInRedeemerValue (mConStr1 []),
                       TxInScript (storeScriptCbor ad)])
             else
               Inr (unsignedTx @
                      [MintPlutusScriptV3,
                       Mint (burn_param.quantity p) (policyId ad)
                         (CIP68_222 (stringToHex (burn_param.assetName p))),
                       MintRedeemerValue (mConStr1 []),
                       MintingScript (mintScriptCbor ad),
                       TxOut walletAddress
                         [\<lparr>unit = policyId ad @ CIP68_222 (stringToHex (burn_param.assetName p)),
                           asset.quantity = js_String (js_plus amount (js_Number (burn_param.quantity p)))\<rparr>]]))"

definition burn ::
  "config \<Rightarrow> adapter \<Rightarrow> burn_param list \<Rightarrow> instr list \<Rightarrow> (error + string) \<times> instr list" where
  "burn cfg ad params meshTxBuilder =
     (case getWalletForTx ad of
        Inl e \<Rightarrow> (Inl e, meshTxBuilder)
      | Inr (utxos, collateral, walletAddress) \<Rightarrow>
          (case promise_all (burn_asset ad walletAddress) params meshTxBuilder of
             (Some e, tx) \<Rightarrow> (Inl e, tx)
           | (None, tx) \<Rightarrow>
               let tx' = tx @ finalize cfg utxos collateral walletAddress
               in (complete cfg tx', tx')))"

section \<open>The batch-mint request handler\<close>

text \<open>
  A request body is whatever JSON the client sent. \<open>None\<close> stands for \<^verbatim>\<open>undefined\<close>. An
  object is the list of its members as written; a member written twice has its last value.
\<close>

datatype json =
    JNull
  | JBool bool
  | JNum rat
  | JStr string
  | JArr "json list"
  | JObj "(string \<times> json) list"

text \<open>JavaScript truthiness, as \<^verbatim>\<open>!x\<close> tests it.\<close>

fun truthy :: "json option \<Rightarrow> bool" where
  "truthy None = False"
| "truthy (Some JNull) = False"
| "truthy (Some (JBool b)) = b"
| "truthy (Some (JNum n)) = (n \<noteq> 0)"
| "truthy (Some (JStr s)) = (s \<noteq> [])"
| "truthy (Some (JArr xs)) = True"
| "truthy (Some (JObj kvs)) = True"

text \<open>
  The property read \<^verbatim>\<open>v.name\<close> for the names the handler reads: a member of an object,
  \<^verbatim>\<open>undefined\<close> on any other value, a \<^verbatim>\<open>TypeError\<close> on \<^verbatim>\<open>null\<close> and \<^verbatim>\<open>undefined\<close>.
\<close>

fun get_prop :: "json option \<Rightarrow> string \<Rightarrow> error + json option" where
  "get_prop None k = Inl TypeError"
| "get_prop (Some JNull) k = Inl TypeError"
| "get_prop (Some (JObj kvs)) k = Inr (map_of (rev kvs) k)"
| "get_prop (Some v) k = Inr None"

datatype response =
    Response400 string
  | Response500 string error
  | Response200 string string nat "json option list"

text \<open>
  What the handler calls outside itself, in the order of the calls. The handler sees the
  builder through values of type \<^verbatim>\<open>any\<close>, so its requests to the builder carry JSON values.
\<close>

record mint_request =
  req_assetName :: "json option"
  req_metadata :: "json option"
  req_quantity :: string
  req_receiver :: "json option"

datatype call =
    NewBlockfrostProvider
  | NewMeshWallet
  | GetChangeAddress
  | NewMeshTxBuilder "json option" string
  | BuilderMint "mint_request list"
  | SignTx string
  | SubmitTx string
  | OnTxConfirmed string

text \<open>
  The answers of the outside world to those calls: the wallet's change address, the policy
  id of a new builder (or what its constructor throws), the unsigned transaction of
  \<^verbatim>\<open>mint\<close>, the signed transaction, the transaction hash, whether the confirmation callback
  is ever called, and what the call \<^verbatim>\<open>v.toString()\<close> gives for a JSON value \<open>v\<close>: a string,
  or the error it throws (an object with a member \<^verbatim>\<open>toString\<close> has a \<^verbatim>\<open>toString\<close> that is not
  a function).
\<close>

record world =
  changeAddress :: string
  newMeshTxBuilder :: "json option \<Rightarrow> string \<Rightarrow> error + string"
  builderMint :: "json option \<Rightarrow> string \<Rightarrow> mint_request list \<Rightarrow> error + string"
  signTx :: "string \<Rightarrow> error + string"
  submitTx :: "string \<Rightarrow> error + string"
  onTxConfirmed :: "string \<Rightarrow> bool"
  toString :: "json \<Rightarrow> error + string"

text \<open>The \<^verbatim>\<open>for (const item of items)\<close> loop: the first response it returns, if any.\<close>

fun check_items :: "json list \<Rightarrow> response option" where
  "check_items [] = None"
| "check_items (item # rest) =
     (case get_prop (Some item) ''asset_name'' of
        Inl e \<Rightarrow> Some (Response500 ''Failed to batch mint assets'' e)
      | Inr a \<Rightarrow>
          (case get_prop (Some item) ''metadata'' of
             Inl e \<Rightarrow> Some (Response500 ''Failed to batch mint assets'' e)
           | Inr m \<Rightarrow>
               (case get_prop (Some item) ''receiver'' of
                  Inl e \<Rightarrow> Some (Response500 ''Failed to batch mint assets'' e)
                | Inr r \<Rightarrow>
                    if \<not> truthy a \<or> \<not> truthy m \<or> \<not> truthy r
                    then Some (Response400 ''Each item must have: asset_name, metadata, receiver'')
                    else check_items rest)))"

text \<open>
  The fields of an item that has passed the loop (its reads do not throw), and the
  parameter object \<^verbatim>\<open>items.map\<close> builds from it.
\<close>

definition member :: "json \<Rightarrow> string \<Rightarrow> json option" where
  "member item k = (case get_prop (Some item) k of Inl e \<Rightarrow> None | Inr v \<Rightarrow> v)"

definition to_request :: "world \<Rightarrow> json \<Rightarrow> error + mint_request" where
  "to_request w item =
     (case (if truthy (member item ''quantity'')
            then toString w (case member item ''quantity'' of Some v \<Rightarrow> v | None \<Rightarrow> JNull)
            else Inr ''1'') of
        Inl e \<Rightarrow> Inl e
      | Inr q \<Rightarrow>
          Inr \<lparr>req_assetName = member item ''asset_name'',
               req_metadata = member item ''metadata'',
               req_quantity = q,
               req_receiver = member item ''receiver''\<rparr>)"

text \<open>\<^verbatim>\<open>items.map\<close> over \<open>to_request\<close>: the list of the results, or the first error thrown.\<close>

fun to_requests :: "world \<Rightarrow> json list \<Rightarrow> error + mint_request list" where
  "to_requests w [] = Inr []"
| "to_requests w (item # rest) =
     (case to_request w item of
        Inl e \<Rightarrow> Inl e
      | Inr r \<Rightarrow> (case to_requests w rest of Inl e \<Rightarrow> Inl e | Inr rs \<Rightarrow> Inr (r # rs)))"

text \<open>
  The handler from the first chain call on. The provider is created before the parameters
  are built. Every error thrown on the way is caught and answered with 500; a confirmation
  that never arrives leaves the request unanswered (\<open>None\<close>).
\<close>

definition batchMint_chain :: "world \<Rightarrow> json option \<Rightarrow> json list \<Rightarrow> response option \<times> call list" where
  "batchMint_chain w course items =
     (case to_requests w items of
        Inl e \<Rightarrow> (Some (Response500 ''Failed to batch mint assets'' e), [NewBlockfrostProvider])
      | Inr params \<Rightarrow>
          let log1 = [NewBlockfrostProvider, NewMeshWallet, GetChangeAddress,
                      NewMeshTxBuilder course (changeAddress w)]
          in case newMeshTxBuilder w course (changeAddress w) of
               Inl e \<Rightarrow> (Some (Response500 ''Failed to batch mint assets'' e), log1)
             | Inr mintPolicyId \<Rightarrow>
                 (case builderMint w course (changeAddress w) params of
                    Inl e \<Rightarrow> (Some (Response500 ''Failed to batch mint assets'' e), log1 @ [BuilderMint params])
                  | Inr unsignedTx \<Rightarrow>
                      (case signTx w unsignedTx of
                         Inl e \<Rightarrow> (Some (Response500 ''Failed to batch mint assets'' e),
                                   log1 @ [BuilderMint params, SignTx unsignedTx])
                       | Inr signedTx \<Rightarrow>
                           (case submitTx w signedTx of
                              Inl e \<Rightarrow> (Some (Response500 ''Failed to batch mint assets'' e),
                                        log1 @ [BuilderMint params, SignTx unsignedTx, SubmitTx signedTx])
                            | Inr h \<Rightarrow>
                                (if onTxConfirmed w h
                                 then Some (Response200 h mintPolicyId (length items)
                                              (map (\<lambda>i. member i ''asset_name'') items))
                                 else None,
                                 log1 @ [BuilderMint params, SignTx unsignedTx, SubmitTx signedTx,
                                         OnTxConfirmed h])))))"

text \<open>\<open>batchMint\<close>: the response, if one is ever sent, and the calls made outside the handler.\<close>

definition batchMint :: "world \<Rightarrow> json option \<Rightarrow> response option \<times> call list" where
  "batchMint w body =
     (case get_prop body ''course'' of
        Inl e \<Rightarrow> (Some (Response500 ''Failed to batch mint assets'' e), [])
      | Inr course \<Rightarrow>
          (case get_prop body ''items'' of
             Inl e \<Rightarrow> (Some (Response500 ''Failed to batch mint assets'' e), [])
           | Inr items \<Rightarrow>
               (case items of
                  Some (JArr xs) \<Rightarrow>
                    if \<not> truthy course \<or> length xs = 0
                    then (Some (Response400 ''Missing required fields: course, items (array)''), [])
                    else if length xs > 15
                    then (Some (Response400 ''Maximum 15 items per batch (Cardano tx size limit)''), [])
                    else (case check_items xs of
                            Some r \<Rightarrow> (Some r, [])
                          | None \<Rightarrow> batchMint_chain w course xs)
                | _ \<Rightarrow> (Some (Response400 ''Missing required fields: course, items (array)''), []))))"

section \<open>Notions used in the statements\<close>

text \<open>
  The definitions of this section are not functions of the source. They name what the
  specification talks about, so that the theorems can compare the source with it.

  The held total in exact integer arithmetic: the sum of the quantities of the unit over
  all the given UTxOs.
\<close>

definition exactAmount :: "utxo list \<Rightarrow> string \<Rightarrow> int" where
  "exactAmount userUtxos u =
     sum_list (map asset.quantity
       (filter (\<lambda>a. unit a = u) (concat (map (\<lambda>x. tx_output.amount (output x)) userUtxos))))"

text \<open>
  The UTxO and the datum of an asset's reference token, as \<open>mint\<close> looks them up, and the
  input instructions for the optional \<open>utxosInput\<close>.
\<close>

definition referenceUtxo :: "adapter \<Rightarrow> string \<Rightarrow> utxo option" where
  "referenceUtxo ad name =
     getAddressUTXOAsset ad (storeAddress ad) (policyId ad @ CIP68_100 (stringToHex name))"

definition storedDatum :: "adapter \<Rightarrow> string \<Rightarrow> cbor option" where
  "storedDatum ad name = (case referenceUtxo ad name of None \<Rightarrow> None | Some u \<Rightarrow> plutusData (output u))"

definition inputInstrs :: "utxo list option \<Rightarrow> instr list" where
  "inputInstrs utxosInput =
     (case utxosInput of
        None \<Rightarrow> []
      | Some us \<Rightarrow> map (\<lambda>u. TxIn (tx_input.txHash (input u)) (outputIndex (input u))) us)"

text \<open>
  The receiver of an asset (the wallet when none is given), the user-token entry minted for
  it, and the instructions one asset contributes to a successful \<open>mint\<close>, for an existing
  asset and for a new one.
\<close>

definition receiverKeyOf :: "string \<Rightarrow> mint_param \<Rightarrow> string" where
  "receiverKeyOf walletAddress p = (if receiver p \<noteq> [] then receiver p else walletAddress)"

definition userAsset :: "adapter \<Rightarrow> mint_param \<Rightarrow> asset" where
  "userAsset ad p =
     \<lparr>unit = policyId ad @ CIP68_222 (stringToHex (mint_param.assetName p)),
      asset.quantity = mint_param.quantity p\<rparr>"

definition mintInstrs :: "adapter \<Rightarrow> bool \<Rightarrow> mint_param \<Rightarrow> instr list" where
  "mintInstrs ad existing p =
     (if existing
      then [MintPlutusScriptV3,
            Mint (mint_param.quantity p) (policyId ad) (CIP68_222 (stringToHex (mint_param.assetName p))),
            MintingScript (mintScriptCbor ad),
            MintRedeemerValue (PConstr 0 [])]
      else [MintPlutusScriptV3,
            Mint (mint_param.quantity p) (policyId ad) (CIP68_222 (stringToHex (mint_param.assetName p))),
            MintingScript (mintScriptCbor ad),
            MintRedeemerValue (PConstr 0 []),
            MintPlutusScriptV3,
            Mint 1 (policyId ad) (CIP68_100 (stringToHex (mint_param.assetName p))),
            MintingScript (mintScriptCbor ad),
            MintRedeemerValue (PConstr 0 []),
            TxOut (storeAddress ad)
              [\<lparr>unit = policyId ad @ CIP68_100 (stringToHex (mint_param.assetName p)),
                asset.quantity = 1\<rparr>],
            TxOutInlineDatumValue (metadataToCip68 (mint_param.metadata p))])"

text \<open>
  One output per distinct receiver address, in the order of the receivers' first
  appearance, each carrying the user tokens of every asset requested for that receiver.
\<close>

definition firstOccurrences :: "'a list \<Rightarrow> 'a list" where
  "firstOccurrences xs = rev (remdups (rev xs))"

definition coalescedOutputs :: "adapter \<Rightarrow> string \<Rightarrow> mint_param list \<Rightarrow> instr list" where
  "coalescedOutputs ad walletAddress params =
     map (\<lambda>r. TxOut r (map (userAsset ad) (filter (\<lambda>p. receiverKeyOf walletAddress p = r) params)))
       (firstOccurrences (map (receiverKeyOf walletAddress) params))"

text \<open>An item of a batch that has \<open>asset_name\<close>, \<open>metadata\<close> and \<open>receiver\<close>.\<close>

definition completeItem :: "json \<Rightarrow> bool" where
  "completeItem item =
     (truthy (member item ''asset_name'') \<and> truthy (member item ''metadata'') \<and>
      truthy (member item ''receiver''))"

section \<open>A sample chain state\<close>

text \<open>
  A provider over a fixed list of UTxOs: \<^verbatim>\<open>fetchAddressUTxOs(address, unit?)\<close> returns the
  UTxOs at the address, only those holding the unit when one is given. The sample adapter
  has policy id \<open>pol\<close>, store address \<open>addr_s\<close> and a wallet at \<open>addr_w\<close>.
\<close>

definition provider :: "utxo list \<Rightarrow> string \<Rightarrow> string option \<Rightarrow> utxo list" where
  "provider chain addr u =
     filter (\<lambda>x. address (output x) = addr \<and>
                 (case u of None \<Rightarrow> True | Some n \<Rightarrow> n \<in> unit ` set (amount (output x)))) chain"

definition ex_adapter :: "utxo list \<Rightarrow> adapter" where
  "ex_adapter chain =
     \<lparr>fetchAddressUTxOs = provider chain,
      meshWallet = \<lparr>getUtxos = provider chain ''addr_w'' None,
                    getCollateral = provider chain ''addr_w'' None,
                    getChangeAddress = ''addr_w''\<rparr>,
      mintCompileCode = ''mint'', mintScriptCbor = ''mintcbor'',
      mintScript = \<lparr>code = ''mintcbor'', version = ''V3''\<rparr>,
      policyId = ''pol'',
      storeCompileCode = ''store'', storeScriptCbor = ''storecbor'',
      storeScript = \<lparr>code = ''storecbor'', version = ''V3''\<rparr>,
      storeAddress = ''addr_s''\<rparr>"

definition ex_utxo :: "string \<Rightarrow> string \<Rightarrow> asset list \<Rightarrow> cbor option \<Rightarrow> utxo" where
  "ex_utxo h addr assets d =
     \<lparr>input = \<lparr>outputIndex = 0, txHash = h\<rparr>,
      output = \<lparr>address = addr, amount = assets, plutusData = d\<rparr>\<rparr>"

text \<open>
  Asset \<open>a\<close> is active: its reference token sits at the store address with a datum whose
  \<open>_pk\<close> holds the five bytes \<open>70 6b 68 5f 77\<close> (the text \<open>pkh_w\<close>), and the wallet holds
  five user tokens of it.
\<close>

definition ex_chain :: "utxo list" where
  "ex_chain =
     [ex_utxo ''tx1'' ''addr_s'' [\<lparr>unit = ''pol000643b061'', quantity = 1\<rparr>]
        (Some (Tagged 121 [CMap [(''name'', ''old''), (''_pk'', ''pkh_w'')], CInt 1])),
      ex_utxo ''tx2'' ''addr_w'' [\<lparr>unit = ''lovelace'', quantity = 5000000\<rparr>,
                                  \<lparr>unit = ''pol000de14061'', quantity = 5\<rparr>] None]"

text \<open>
  A wallet UTxO holding \<open>2^53 + 1\<close> user tokens, and the chain with a foreign owner (the
  \<open>_pk\<close> bytes are \<open>70 6b 68 5f 76\<close>).
\<close>

definition ex_big_utxos :: "utxo list" where
  "ex_big_utxos =
     [ex_utxo ''tx3'' ''addr_w'' [\<lparr>unit = ''pol000de14061'', quantity = 9007199254740993\<rparr>] None]"

definition ex_chain_foreign :: "utxo list" where
  "ex_chain_foreign =
     [ex_utxo ''tx1'' ''addr_s'' [\<lparr>unit = ''pol000643b061'', quantity = 1\<rparr>]
        (Some (Tagged 121 [CMap [(''name'', ''old''), (''_pk'', ''pkh_v'')], CInt 1])),
      ex_utxo ''tx2'' ''addr_w'' [\<lparr>unit = ''lovelace'', quantity = 5000000\<rparr>] None]"

definition ex_wallet_utxo :: utxo where
  "ex_wallet_utxo =
     ex_utxo ''tx2'' ''addr_w'' [\<lparr>unit = ''lovelace'', quantity = 5000000\<rparr>,
                                 \<lparr>unit = ''pol000de14061'', quantity = 5\<rparr>] None"

text \<open>
  A sample configuration: an address \<open>addr_x\<close> has the public-key hash \<open>pkh_x\<close>, and
  \<^verbatim>\<open>complete()\<close> always succeeds.
\<close>

definition ex_cfg :: config where
  "ex_cfg =
     \<lparr>deserializeAddress = (\<lambda>a. \<lparr>pubKeyHash = ''pkh_'' @ drop 5 a, scriptHash = ''sh_'' @ drop 5 a,
                                   stakeCredentialHash = ''stake_'' @ drop 5 a\<rparr>),
      applyParamsToScript = (\<lambda>c ps. c @ concat ps),
      serializePlutusScript = (\<lambda>s n. ''addr_'' @ code s),
      serializeAddressObj = (\<lambda>a n. case a of ScriptAddress h s b \<Rightarrow> ''addr_'' @ h),
      resolveScriptHash = (\<lambda>c v. ''hash_'' @ c),
      complete = (\<lambda>tx. Inr ''unsigned''),
      APP_NETWORK_ID = 0,
      APP_NETWORK = ''preview'',
      title_store = ''store'',
      title_mint = ''mint'',
      plutus_json = \<lparr>validators = []\<rparr>\<rparr>"

text \<open>
  A world in which every call succeeds and the transaction is confirmed, and a complete
  item. Its \<open>toString\<close> is that of JavaScript on strings and objects, the only values the
  samples apply it to.
\<close>

definition ex_world :: world where
  "ex_world =
     \<lparr>changeAddress = ''addr_w'',
      newMeshTxBuilder = (\<lambda>course issuer. Inr ''pol''),
      builderMint = (\<lambda>course issuer params. Inr ''unsigned''),
      signTx = (\<lambda>tx. Inr ''signed''),
      submitTx = (\<lambda>tx. Inr ''hash''),
      onTxConfirmed = (\<lambda>h. True),
      toString = (\<lambda>v. case v of
                         JStr s \<Rightarrow> Inr s
                       | JObj kvs \<Rightarrow> if ''toString'' \<in> fst ` set kvs then Inl TypeError
                                     else Inr ''[object Object]''
                       | _ \<Rightarrow> Inr ''?'')\<rparr>"

definition ex_item :: json where
  "ex_item = JObj [(''asset_name'', JStr ''b''), (''metadata'', JObj [(''name'', JStr ''B'')]),
                   (''receiver'', JStr ''addr_r'')]"

section \<open>Properties\<close>

subsection \<open>Auxiliary facts\<close>

declare ulp.simps [simp del]

declare digits10.simps [simp del]

lemma ulp_small: "m < 2 ^ 53 \<Longrightarrow> ulp m = 1"
  by (subst ulp.simps) simp

lemma round53_exact: "\<bar>n\<bar> < 2 ^ 53 \<Longrightarrow> round53 n = n"
  by (simp add: round53_def ulp_small Let_def mult_sgn_abs)

lemma ulp_large: "2 ^ 53 \<le> m \<Longrightarrow> 2 \<le> ulp m \<and> 2 ^ 52 * ulp m \<le> m"
proof (induction m rule: ulp.induct)
  case (1 m)
  note big = \<open>2 ^ 53 \<le> m\<close>
  have u: "ulp m = 2 * ulp (m div 2)" using big by (subst ulp.simps) simp
  show ?case
  proof (cases "m div 2 < 2 ^ 53")
    case True
    then have "ulp m = 2" using u by (simp add: ulp_small)
    then show ?thesis using big by simp
  next
    case False
    then have ih: "2 \<le> ulp (m div 2) \<and> 2 ^ 52 * ulp (m div 2) \<le> m div 2"
      using "1.IH" big by simp
    have "2 * (m div 2) \<le> m" by simp
    then show ?thesis using ih by (simp add: u)
  qed
qed

text \<open>From \<open>2^53\<close> on, rounding stays at or above \<open>2^53\<close>.\<close>

lemma round53_large:
  assumes "2 ^ 53 \<le> n"
  shows "2 ^ 53 \<le> round53 n"
proof -
  let ?u = "ulp n"
  from ulp_large [OF assms] have u2: "2 \<le> ?u" and low: "2 ^ 52 * ?u \<le> n" by simp_all
  have upos: "0 < ?u" using u2 by simp
  have "(2 ^ 52 * ?u) div ?u \<le> n div ?u" using low upos by (rule zdiv_mono1)
  then have q: "2 ^ 52 \<le> n div ?u" using upos by simp
  have "2 ^ 52 * 2 \<le> (n div ?u) * ?u"
    using q u2 by (intro mult_mono) simp_all
  then have qu: "2 ^ 53 \<le> (n div ?u) * ?u" by simp
  have "(n div ?u) * ?u \<le> (n div ?u + 1) * ?u" using upos by (simp add: distrib_right)
  with qu have qu1: "2 ^ 53 \<le> (n div ?u + 1) * ?u" by linarith
  have n: "\<bar>n\<bar> = n" "sgn n = 1" using assms by simp_all
  show ?thesis
    using qu qu1 by (simp add: round53_def Let_def n)
qed

lemma round53_abs_large:
  assumes "2 ^ 53 \<le> \<bar>n\<bar>"
  shows "2 ^ 53 \<le> \<bar>round53 n\<bar>"
proof -
  have neg: "round53 (- k) = - round53 k" for k by (simp add: round53_def Let_def)
  show ?thesis
  proof (cases "0 \<le> n")
    case True
    with assms round53_large [of n] show ?thesis by simp
  next
    case False
    with assms round53_large [of "- n"] show ?thesis by (simp add: neg)
  qed
qed

lemma div_mult_bounds:
  fixes p m :: int
  assumes "0 < p"
  shows "(m div p) * p \<le> m" and "m < (m div p) * p + p"
proof -
  have 1: "0 \<le> m mod p" and 2: "m mod p < p" using assms by simp_all
  have 3: "m = (m div p) * p + m mod p" by simp
  show "(m div p) * p \<le> m" using 1 3 by linarith
  show "m < (m div p) * p + p" using 2 3 by linarith
qed

text \<open>
  Below \<open>2^53\<close> no shorter numeral rounds to \<open>m\<close>: \<^verbatim>\<open>String\<close> prints the digits of \<open>m\<close>.
\<close>

lemma shortest_exact: "0 \<le> m \<Longrightarrow> m < 2 ^ 53 \<Longrightarrow> shortest m e = m"
proof (induction e)
  case 0
  then show ?case by simp
next
  case (Suc e)
  define p :: int where "p = 10 ^ Suc e"
  define lo where "lo = (m div p) * p"
  have ppos: "0 < p" by (simp add: p_def)
  have lom: "lo \<le> m" unfolding lo_def using ppos by (rule div_mult_bounds)
  have him: "m < lo + p" unfolding lo_def using ppos by (rule div_mult_bounds)
  have "0 \<le> m div p" using Suc.prems(1) ppos by (simp add: pos_imp_zdiv_nonneg_iff)
  then have lo0: "0 \<le> lo" unfolding lo_def using ppos by simp
  have "\<bar>lo\<bar> < 2 ^ 53" using lo0 lom Suc.prems(2) by linarith
  then have lo: "round53 lo = lo" by (rule round53_exact)
  have hi: "round53 (lo + p) \<noteq> m"
  proof (cases "lo + p < 2 ^ 53")
    case True
    then have "\<bar>lo + p\<bar> < 2 ^ 53" using lo0 ppos by linarith
    then have "round53 (lo + p) = lo + p" by (rule round53_exact)
    then show ?thesis using him by simp
  next
    case False
    then have "2 ^ 53 \<le> lo + p" by simp
    then have "2 ^ 53 \<le> round53 (lo + p)" by (rule round53_large)
    then show ?thesis using Suc.prems(2) by linarith
  qed
  have "shortest m (Suc e) =
          (if round53 lo = m \<and> (round53 (lo + p) \<noteq> m \<or> m - lo \<le> lo + p - m) then lo
           else if round53 (lo + p) = m then lo + p else shortest m e)"
    by (simp only: shortest.simps Let_def lo_def p_def)
  then show ?case
    using Suc.IH [OF Suc.prems] lo hi by auto
qed

lemma js_String_exact: "\<bar>x\<bar> < 2 ^ 53 \<Longrightarrow> js_String x = x"
  by (simp add: js_String_def shortest_exact mult_sgn_abs)

text \<open>Beyond \<open>2^53\<close> it does not: \<^verbatim>\<open>String(2**57)\<close> is \<^verbatim>\<open>'144115188075855870'\<close>.\<close>

lemma js_String_rounds: "js_String 144115188075855872 = 144115188075855870"
  by code_simp

lemma CIP68_labels_differ: "CIP68_100 x \<noteq> CIP68_222 y"
  by (simp add: CIP68_100_def CIP68_222_def)

lemma promise_all_error:
  assumes "x \<in> set xs" and "\<And>s. \<exists>e. f x s = Inl e"
  shows "\<exists>e. fst (promise_all f xs s) = Some e"
  using assms(1)
proof (induction xs arbitrary: s)
  case Nil
  then show ?case by simp
next
  case (Cons y ys)
  show ?case
  proof (cases "f y s")
    case (Inl e)
    then show ?thesis by simp
  next
    case (Inr s')
    with assms(2) have "y \<noteq> x" by (metis sum.distinct(1))
    with Cons.prems have "x \<in> set ys" by simp
    then show ?thesis using Cons.IH Inr by simp
  qed
qed

lemma promise_all_invariant:
  assumes "\<And>x s s'. x \<in> set xs \<Longrightarrow> P s \<Longrightarrow> f x s = Inr s' \<Longrightarrow> P s'" and "P s"
  shows "P (snd (promise_all f xs s))"
  using assms
proof (induction xs arbitrary: s)
  case Nil
  then show ?case by simp
next
  case (Cons x xs)
  show ?case
  proof (cases "f x s")
    case (Inl e)
    have "P (snd (promise_all f xs s))"
      using Cons.prems by (intro Cons.IH) auto
    then show ?thesis using Inl by simp
  next
    case (Inr s')
    have "P s'" using Cons.prems(1) [of x s s'] Cons.prems(2) Inr by simp
    then have "P (snd (promise_all f xs s'))"
      using Cons.prems(1) by (intro Cons.IH) auto
    then show ?thesis using Inr by simp
  qed
qed

lemma promise_all_single:
  "promise_all f [x] s = (case f x s of Inl e \<Rightarrow> (Some e, s) | Inr s' \<Rightarrow> (None, s'))"
  by (simp split: sum.splits)

lemma getWalletForTx_cases:
  "(\<exists>e. getWalletForTx ad = Inl e) \<or>
   (\<exists>utxos collateral. getWalletForTx ad = Inr (utxos, collateral, getChangeAddress (meshWallet ad)))"
  by (auto simp: getWalletForTx_def Let_def split: list.splits)

subsection \<open>Facts about the sample state\<close>

lemma ex_adapter_sel [simp]:
  "fetchAddressUTxOs (ex_adapter c) = provider c"
  "policyId (ex_adapter c) = ''pol''"
  "storeAddress (ex_adapter c) = ''addr_s''"
  "mintScriptCbor (ex_adapter c) = ''mintcbor''"
  "storeScriptCbor (ex_adapter c) = ''storecbor''"
  "getChangeAddress (meshWallet (ex_adapter c)) = ''addr_w''"
  "getUtxos (meshWallet (ex_adapter c)) = provider c ''addr_w'' None"
  "getCollateral (meshWallet (ex_adapter c)) = provider c ''addr_w'' None"
  by (simp_all add: ex_adapter_def)

lemma ex_utxo_sel [simp]:
  "tx_input.txHash (input (ex_utxo h a as d)) = h"
  "outputIndex (input (ex_utxo h a as d)) = 0"
  "address (output (ex_utxo h a as d)) = a"
  "amount (output (ex_utxo h a as d)) = as"
  "plutusData (output (ex_utxo h a as d)) = d"
  by (simp_all add: ex_utxo_def)

lemma ex_cfg_sel [simp]:
  "pubKeyHash (deserializeAddress ex_cfg a) = ''pkh_'' @ drop 5 a"
  "complete ex_cfg tx = Inr ''unsigned''"
  "APP_NETWORK ex_cfg = ''preview''"
  by (simp_all add: ex_cfg_def)

lemma hex_a: "stringToHex ''a'' = ''61''"
  by (simp add: stringToHex_def hexdigit_def)

lemma hex_b: "stringToHex ''b'' = ''62''"
  by (simp add: stringToHex_def hexdigit_def)

lemma hex_c: "stringToHex ''c'' = ''63''"
  by (simp add: stringToHex_def hexdigit_def)

lemma hex_d: "stringToHex ''d'' = ''64''"
  by (simp add: stringToHex_def hexdigit_def)

lemmas ex_defs = provider_def ex_chain_def hex_a CIP68_100_def CIP68_222_def

lemma ex_held:
  "heldAmount (getAddressUTXOAssets (ex_adapter ex_chain) ''addr_w'' ''pol000de14061'')
     ''pol000de14061'' = 5"
  by (simp add: heldAmount_def getAddressUTXOAssets_def ex_defs js_plus_def js_Number_def round53_exact)

lemma ex_exact:
  "exactAmount (getAddressUTXOAssets (ex_adapter ex_chain) ''addr_w'' ''pol000de14061'')
     ''pol000de14061'' = 5"
  by (simp add: exactAmount_def getAddressUTXOAssets_def ex_defs)

lemma ex_locate:
  "locateStoreUtxo (ex_adapter ex_chain) ''a'' None =
     Inr (ex_utxo ''tx1'' ''addr_s'' [\<lparr>unit = ''pol000643b061'', quantity = 1\<rparr>]
            (Some (Tagged 121 [CMap [(''name'', ''old''), (''_pk'', ''pkh_w'')], CInt 1])))"
  by (simp add: locateStoreUtxo_def getAddressUTXOAsset_def ex_defs)

lemma ex_wallet: "getWalletForTx (ex_adapter ex_chain) = Inr ([ex_wallet_utxo], ex_wallet_utxo, ''addr_w'')"
  by (simp add: getWalletForTx_def provider_def ex_chain_def ex_wallet_utxo_def Let_def)

lemma ex_wallet_foreign:
  "getWalletForTx (ex_adapter ex_chain_foreign) =
     Inr ([ex_utxo ''tx2'' ''addr_w'' [\<lparr>unit = ''lovelace'', quantity = 5000000\<rparr>] None],
          ex_utxo ''tx2'' ''addr_w'' [\<lparr>unit = ''lovelace'', quantity = 5000000\<rparr>] None, ''addr_w'')"
  by (simp add: getWalletForTx_def provider_def ex_chain_foreign_def Let_def)

lemma ex_ref_a: "referenceUtxo (ex_adapter ex_chain) ''a'' =
    Some (ex_utxo ''tx1'' ''addr_s'' [\<lparr>unit = ''pol000643b061'', quantity = 1\<rparr>]
        (Some (Tagged 121 [CMap [(''name'', ''old''), (''_pk'', ''pkh_w'')], CInt 1])))"
  by (simp add: referenceUtxo_def getAddressUTXOAsset_def ex_defs)

lemma ex_ref_b: "referenceUtxo (ex_adapter ex_chain) ''b'' = None"
  by (simp add: referenceUtxo_def getAddressUTXOAsset_def ex_defs hex_b)

lemma ex_ref_c: "referenceUtxo (ex_adapter ex_chain) ''c'' = None"
  by (simp add: referenceUtxo_def getAddressUTXOAsset_def ex_defs hex_c)

lemma ex_ref_d: "referenceUtxo (ex_adapter ex_chain) ''d'' = None"
  by (simp add: referenceUtxo_def getAddressUTXOAsset_def ex_defs hex_d)

lemma ex_ref_foreign: "referenceUtxo (ex_adapter ex_chain_foreign) ''a'' =
    Some (ex_utxo ''tx1'' ''addr_s'' [\<lparr>unit = ''pol000643b061'', quantity = 1\<rparr>]
        (Some (Tagged 121 [CMap [(''name'', ''old''), (''_pk'', ''pkh_v'')], CInt 1])))"
  by (simp add: referenceUtxo_def getAddressUTXOAsset_def provider_def ex_chain_foreign_def hex_a CIP68_100_def)

subsection \<open>The adapter's derived scripts\<close>

text \<open>
  C9. Two adapters constructed for the same course and the same issuer address have the same
  store script code, mint script code, policy id and store address, whatever fetcher and
  wallet each of them is given: the four values are computed from the compiled contract
  and the two parameters by the SDK's pure functions (with the configured network id), and
  the constructor consults neither the chain nor the wallet. When a validator is missing
  from the contract both constructions throw the same error.
\<close>

theorem adapter_derivation_deterministic:
  "map_sum id (\<lambda>a. (storeScriptCbor a, mintScriptCbor a, policyId a, storeAddress a))
     (MeshAdapter cfg fetch1 w1 course issuer) =
   map_sum id (\<lambda>a. (storeScriptCbor a, mintScriptCbor a, policyId a, storeAddress a))
     (MeshAdapter cfg fetch2 w2 course issuer)"
  by (simp add: MeshAdapter_def Let_def split: sum.splits)

subsection \<open>Burn: full against partial\<close>




subsection \<open>Partial burns leave the reference token alone\<close>

text \<open>
  C5, as the source has it. When the magnitude of the requested quantity (as a JavaScript
  number) is less than the held total \<open>H\<close> and the store UTxO is found, the callback
  emits the user-token mint of the requested quantity and one output to the wallet, and
  nothing else: no spend of the store UTxO and no mint of the reference token, so the
  reference token and its datum stay as they are. The quantity of the output is
  \<^verbatim>\<open>String(H + Number(quantity))\<close>. While \<open>H\<close> is below \<open>2^53\<close> that is \<open>H\<close> less the burned
  amount for a quantity that is not positive, and \<open>H + quantity\<close> for any quantity whose sum
  with \<open>H\<close> is below \<open>2^53\<close>.
\<close>

theorem partial_burn_leaves_reference:
  assumes "locateStoreUtxo ad (burn_param.assetName p) (burn_param.txHash p) = Inr storeUtxo"
      and "heldAmount (getAddressUTXOAssets ad walletAddress
                         (policyId ad @ CIP68_222 (stringToHex (burn_param.assetName p))))
             (policyId ad @ CIP68_222 (stringToHex (burn_param.assetName p))) = H"
      and "\<bar>js_Number (burn_param.quantity p)\<bar> < H"
  shows "(let out = js_String (js_plus H (js_Number (burn_param.quantity p)));
              new = [MintPlutusScriptV3,
                     Mint (burn_param.quantity p) (policyId ad)
                       (CIP68_222 (stringToHex (burn_param.assetName p))),
                     MintRedeemerValue (PConstr 1 []),
                     MintingScript (mintScriptCbor ad),
                     TxOut walletAddress
                       [\<lparr>unit = policyId ad @ CIP68_222 (stringToHex (burn_param.assetName p)),
                         asset.quantity = out\<rparr>]]
          in burn_asset ad walletAddress p tx = Inr (tx @ new) \<and>
             SpendingPlutusScriptV3 \<notin> set new \<and>
             (\<forall>h n. TxIn h n \<notin> set new) \<and>
             (\<forall>k. Mint k (policyId ad) (CIP68_100 (stringToHex (burn_param.assetName p))) \<notin> set new) \<and>
             (H < 2 ^ 53 \<and> \<bar>H + burn_param.quantity p\<bar> < 2 ^ 53 \<longrightarrow>
                out = H + burn_param.quantity p) \<and>
             (H < 2 ^ 53 \<and> burn_param.quantity p \<le> 0 \<longrightarrow>
                out = H - \<bar>burn_param.quantity p\<bar>))"
proof -
  have ne: "- js_Number (burn_param.quantity p) \<noteq> H"
    using assms(3) by linarith
  have branch: "burn_asset ad walletAddress p tx =
      Inr (tx @ [MintPlutusScriptV3,
                 Mint (burn_param.quantity p) (policyId ad)
                   (CIP68_222 (stringToHex (burn_param.assetName p))),
                 MintRedeemerValue (PConstr 1 []),
                 MintingScript (mintScriptCbor ad),
                 TxOut walletAddress
                   [\<lparr>unit = policyId ad @ CIP68_222 (stringToHex (burn_param.assetName p)),
                     asset.quantity = js_String (js_plus H (js_Number (burn_param.quantity p)))\<rparr>]])"
    using assms(1,2) ne by (simp add: burn_asset_def Let_def mConStr1_def)
  have small: "\<bar>burn_param.quantity p\<bar> < 2 ^ 53" if "H < 2 ^ 53"
  proof (rule ccontr)
    assume "\<not> \<bar>burn_param.quantity p\<bar> < 2 ^ 53"
    then have "2 ^ 53 \<le> \<bar>burn_param.quantity p\<bar>" by simp
    then have "2 ^ 53 \<le> \<bar>round53 (burn_param.quantity p)\<bar>" by (rule round53_abs_large)
    then show False using assms(3) that by (simp add: js_Number_def)
  qed
  have n: "js_Number (burn_param.quantity p) = burn_param.quantity p" if "H < 2 ^ 53"
    using small [OF that] by (simp add: js_Number_def round53_exact)
  have sum: "js_String (js_plus H (js_Number (burn_param.quantity p))) = H + burn_param.quantity p"
    if "H < 2 ^ 53" "\<bar>H + burn_param.quantity p\<bar> < 2 ^ 53"
    using that n by (simp add: js_plus_def round53_exact js_String_exact)
  have less: "js_String (js_plus H (js_Number (burn_param.quantity p))) = H - \<bar>burn_param.quantity p\<bar>"
    if "H < 2 ^ 53" "burn_param.quantity p \<le> 0"
  proof -
    have "\<bar>H + burn_param.quantity p\<bar> < 2 ^ 53"
      using assms(3) that n [OF that(1)] by linarith
    from sum [OF that(1) this] show ?thesis using that(2) by simp
  qed
  show ?thesis
    using branch sum less by (auto simp: Let_def CIP68_labels_differ)
qed

text \<open>
Burning two of the five held tokens leaves three.
\<close>

theorem partial_burn_leaves_reference_witness:
  "\<bar>js_Number (- 2)\<bar> < (5::int) \<and>
   burn_asset (ex_adapter ex_chain) ''addr_w'' \<lparr>burn_param.assetName = ''a'', burn_param.quantity = - 2, burn_param.txHash = None\<rparr> [] =
     Inr [MintPlutusScriptV3, Mint (- 2) ''pol'' ''000de14061'', MintRedeemerValue (PConstr 1 []),
          MintingScript ''mintcbor'',
          TxOut ''addr_w'' [\<lparr>unit = ''pol000de14061'', quantity = 3\<rparr>]]"
proof -
  let ?p = "\<lparr>burn_param.assetName = ''a'', burn_param.quantity = - 2, burn_param.txHash = None\<rparr>"
  have h1: "locateStoreUtxo (ex_adapter ex_chain) (burn_param.assetName ?p) (burn_param.txHash ?p) =
           Inr (ex_utxo ''tx1'' ''addr_s'' [\<lparr>unit = ''pol000643b061'', quantity = 1\<rparr>]
                 (Some (Tagged 121 [CMap [(''name'', ''old''), (''_pk'', ''pkh_w'')], CInt 1])))"
    by (simp add: ex_locate)
  have h2: "heldAmount (getAddressUTXOAssets (ex_adapter ex_chain) ''addr_w''
                         (policyId (ex_adapter ex_chain) @ CIP68_222 (stringToHex (burn_param.assetName ?p))))
             (policyId (ex_adapter ex_chain) @ CIP68_222 (stringToHex (burn_param.assetName ?p))) = 5"
    using ex_held by (simp add: hex_a CIP68_222_def)
  have h3: "\<bar>js_Number (burn_param.quantity ?p)\<bar> < 5"
    by (simp add: js_Number_def round53_exact)
  show ?thesis
    using partial_burn_leaves_reference [OF h1 h2 h3, of "[]"] h3
    by (simp add: Let_def hex_a CIP68_222_def)
qed

text \<open>
  The claim as worded covers every quantity of magnitude below the held total. With five
  tokens held, the quantity \<open>1\<close> has magnitude one, and the output carries six tokens:
  the balance grows by one instead of shrinking by the burned amount.
\<close>

theorem partial_burn_positive_counterexample:
  "\<bar>js_Number 1\<bar> <
     heldAmount (getAddressUTXOAssets (ex_adapter ex_chain) ''addr_w'' ''pol000de14061'') ''pol000de14061'' \<and>
   heldAmount (getAddressUTXOAssets (ex_adapter ex_chain) ''addr_w'' ''pol000de14061'') ''pol000de14061'' = 5 \<and>
   burn_asset (ex_adapter ex_chain) ''addr_w'' \<lparr>burn_param.assetName = ''a'', burn_param.quantity = 1, burn_param.txHash = None\<rparr> [] =
     Inr [MintPlutusScriptV3, Mint 1 ''pol'' ''000de14061'', MintRedeemerValue (PConstr 1 []),
          MintingScript ''mintcbor'',
          TxOut ''addr_w'' [\<lparr>unit = ''pol000de14061'', quantity = 6\<rparr>]]"
  using ex_held
  by (simp add: burn_asset_def ex_locate js_Number_def js_plus_def js_String_exact round53_exact hex_a
        CIP68_100_def CIP68_222_def mConStr1_def Let_def)

subsection \<open>Burn: the arithmetic on quantities\<close>

lemma matching_sum_nonneg:
  assumes "\<forall>a\<in>set as. unit a = u \<longrightarrow> 0 \<le> asset.quantity a"
  shows "0 \<le> sum_list (map asset.quantity (filter (\<lambda>a. unit a = u) as))"
  using assms by (intro sum_list_nonneg) auto

lemma inner_reduce_exact:
  assumes "\<forall>a\<in>set as. unit a = u \<longrightarrow> 0 \<le> asset.quantity a"
      and "0 \<le> acc"
      and "acc + sum_list (map asset.quantity (filter (\<lambda>a. unit a = u) as)) < 2 ^ 53"
  shows "foldl (\<lambda>amt a. if unit a = u then js_plus amt (js_Number (asset.quantity a)) else amt) acc as =
         acc + sum_list (map asset.quantity (filter (\<lambda>a. unit a = u) as))"
  using assms
proof (induction as arbitrary: acc)
  case Nil
  then show ?case by simp
next
  case (Cons a as)
  have rest: "0 \<le> sum_list (map asset.quantity (filter (\<lambda>a. unit a = u) as))"
    using Cons.prems(1) by (intro matching_sum_nonneg) simp
  show ?case
  proof (cases "unit a = u")
    case True
    have q: "0 \<le> asset.quantity a" using Cons.prems(1) True by simp
    have b: "acc + asset.quantity a < 2 ^ 53" using Cons.prems(3) True rest by simp
    have n: "js_Number (asset.quantity a) = asset.quantity a"
      using q b Cons.prems(2) by (simp add: js_Number_def round53_exact)
    have s: "js_plus acc (asset.quantity a) = acc + asset.quantity a"
      using q b Cons.prems(2) by (simp add: js_plus_def round53_exact)
    have "foldl (\<lambda>amt a. if unit a = u then js_plus amt (js_Number (asset.quantity a)) else amt)
            (acc + asset.quantity a) as =
          acc + asset.quantity a + sum_list (map asset.quantity (filter (\<lambda>a. unit a = u) as))"
      using Cons.prems True q by (intro Cons.IH) (simp_all add: add.assoc)
    then show ?thesis using True n s by simp
  next
    case False
    then show ?thesis using Cons by simp
  qed
qed

lemma outer_reduce_exact:
  assumes "\<forall>x\<in>set xs. \<forall>a\<in>set (tx_output.amount (output x)). unit a = u \<longrightarrow> 0 \<le> asset.quantity a"
      and "0 \<le> acc"
      and "acc + exactAmount xs u < 2 ^ 53"
  shows "foldl (\<lambda>amount utxos.
              js_plus amount
                (foldl (\<lambda>amt a. if unit a = u then js_plus amt (js_Number (asset.quantity a)) else amt)
                   0 (tx_output.amount (output utxos)))) acc xs = acc + exactAmount xs u"
  using assms
proof (induction xs arbitrary: acc)
  case Nil
  then show ?case by (simp add: exactAmount_def)
next
  case (Cons x xs)
  let ?S = "sum_list (map asset.quantity (filter (\<lambda>a. unit a = u) (tx_output.amount (output x))))"
  have split: "exactAmount (x # xs) u = ?S + exactAmount xs u"
    by (simp add: exactAmount_def)
  have s0: "0 \<le> ?S" using Cons.prems(1) by (intro matching_sum_nonneg) simp
  have r0: "0 \<le> exactAmount xs u"
    unfolding exactAmount_def using Cons.prems(1) by (intro matching_sum_nonneg) auto
  have inner: "foldl (\<lambda>amt a. if unit a = u then js_plus amt (js_Number (asset.quantity a)) else amt)
                 0 (tx_output.amount (output x)) = ?S"
    using inner_reduce_exact [of "tx_output.amount (output x)" u 0] Cons.prems split r0 s0 by simp
  have plus: "js_plus acc ?S = acc + ?S"
    using Cons.prems(2,3) split r0 s0 by (simp add: js_plus_def round53_exact)
  have "foldl (\<lambda>amount utxos.
              js_plus amount
                (foldl (\<lambda>amt a. if unit a = u then js_plus amt (js_Number (asset.quantity a)) else amt)
                   0 (tx_output.amount (output utxos)))) (acc + ?S) xs = acc + ?S + exactAmount xs u"
    using Cons.prems split s0 by (intro Cons.IH) (simp_all add: add.assoc)
  then show ?case using inner plus split by simp
qed

lemma heldAmount_exact:
  assumes "\<forall>x\<in>set xs. \<forall>a\<in>set (tx_output.amount (output x)). unit a = u \<longrightarrow> 0 \<le> asset.quantity a"
      and "exactAmount xs u < 2 ^ 53"
  shows "heldAmount xs u = exactAmount xs u"
  using outer_reduce_exact [OF assms(1), of 0] assms(2) by (simp add: heldAmount_def)

text \<open>
  C8, as the source has it. The quantities are JavaScript numbers. As long as the held
  quantities are not negative and the held total \<open>H\<close>, the requested quantity and their
  sum are below \<open>2^53\<close> in magnitude, the nested \<^verbatim>\<open>reduce\<close> computes exactly the integer
  total, and for every requested quantity whose negation is not \<open>H\<close> (a positive one, or
  one of larger magnitude than \<open>H\<close>, included) the partial branch runs and its output
  holds exactly \<open>H + quantity\<close>, negative or not. The quantity is never validated:
  whatever it is, the callback succeeds once the store UTxO is found.
\<close>

theorem burn_quantity_arithmetic:
  assumes "locateStoreUtxo ad (burn_param.assetName p) (burn_param.txHash p) = Inr storeUtxo"
      and "\<forall>x\<in>set (getAddressUTXOAssets ad walletAddress
                         (policyId ad @ CIP68_222 (stringToHex (burn_param.assetName p)))).
             \<forall>a\<in>set (tx_output.amount (output x)).
               unit a = policyId ad @ CIP68_222 (stringToHex (burn_param.assetName p))
                 \<longrightarrow> 0 \<le> asset.quantity a"
      and "exactAmount (getAddressUTXOAssets ad walletAddress
                          (policyId ad @ CIP68_222 (stringToHex (burn_param.assetName p))))
             (policyId ad @ CIP68_222 (stringToHex (burn_param.assetName p))) = H"
      and "H < 2 ^ 53"
      and "\<bar>burn_param.quantity p\<bar> < 2 ^ 53"
      and "\<bar>H + burn_param.quantity p\<bar> < 2 ^ 53"
      and "- burn_param.quantity p \<noteq> H"
  shows "heldAmount (getAddressUTXOAssets ad walletAddress
                       (policyId ad @ CIP68_222 (stringToHex (burn_param.assetName p))))
           (policyId ad @ CIP68_222 (stringToHex (burn_param.assetName p))) = H \<and>
         burn_asset ad walletAddress p tx =
           Inr (tx @
             [MintPlutusScriptV3,
              Mint (burn_param.quantity p) (policyId ad)
                (CIP68_222 (stringToHex (burn_param.assetName p))),
              MintRedeemerValue (PConstr 1 []),
              MintingScript (mintScriptCbor ad),
              TxOut walletAddress
                [\<lparr>unit = policyId ad @ CIP68_222 (stringToHex (burn_param.assetName p)),
                  asset.quantity = H + burn_param.quantity p\<rparr>]]) \<and>
         (\<forall>q. \<exists>tx'. burn_asset ad walletAddress (p\<lparr>burn_param.quantity := q\<rparr>) tx = Inr tx')"
proof -
  have any: "\<exists>tx'. burn_asset ad walletAddress (p\<lparr>burn_param.quantity := q\<rparr>) tx = Inr tx'" for q
    using assms(1) by (simp add: burn_asset_def Let_def)
  have held: "heldAmount (getAddressUTXOAssets ad walletAddress
                       (policyId ad @ CIP68_222 (stringToHex (burn_param.assetName p))))
           (policyId ad @ CIP68_222 (stringToHex (burn_param.assetName p))) = H"
    using heldAmount_exact [OF assms(2)] assms(3,4) by simp
  have n: "js_Number (burn_param.quantity p) = burn_param.quantity p"
    using assms(5) by (simp add: js_Number_def round53_exact)
  have s: "js_plus H (burn_param.quantity p) = H + burn_param.quantity p"
    using assms(6) by (simp add: js_plus_def round53_exact)
  have str: "js_String (H + burn_param.quantity p) = H + burn_param.quantity p"
    using assms(6) by (rule js_String_exact)
  show ?thesis
    using assms(1,7) held n s str any
    by (simp add: burn_asset_def Let_def mConStr1_def)
qed

text \<open>
Five tokens held, seven to burn: the partial branch sends \<open>-2\<close> tokens to the wallet.
\<close>

theorem burn_quantity_arithmetic_witness:
  "heldAmount (getAddressUTXOAssets (ex_adapter ex_chain) ''addr_w'' ''pol000de14061'')
     ''pol000de14061'' = 5 \<and>
   burn_asset (ex_adapter ex_chain) ''addr_w'' \<lparr>burn_param.assetName = ''a'', burn_param.quantity = - 7, burn_param.txHash = None\<rparr> [] =
     Inr [MintPlutusScriptV3, Mint (- 7) ''pol'' ''000de14061'', MintRedeemerValue (PConstr 1 []),
          MintingScript ''mintcbor'',
          TxOut ''addr_w'' [\<lparr>unit = ''pol000de14061'', quantity = - 2\<rparr>]]"
proof -
  let ?p = "\<lparr>burn_param.assetName = ''a'', burn_param.quantity = - 7, burn_param.txHash = None\<rparr>"
  have u: "policyId (ex_adapter ex_chain) @ CIP68_222 (stringToHex (burn_param.assetName ?p)) = ''pol000de14061''"
    by (simp add: hex_a CIP68_222_def)
  have h1: "locateStoreUtxo (ex_adapter ex_chain) (burn_param.assetName ?p) (burn_param.txHash ?p) =
           Inr (ex_utxo ''tx1'' ''addr_s'' [\<lparr>unit = ''pol000643b061'', quantity = 1\<rparr>]
                 (Some (Tagged 121 [CMap [(''name'', ''old''), (''_pk'', ''pkh_w'')], CInt 1])))"
    by (simp add: ex_locate)
  have h2: "\<forall>x\<in>set (getAddressUTXOAssets (ex_adapter ex_chain) ''addr_w''
                         (policyId (ex_adapter ex_chain) @ CIP68_222 (stringToHex (burn_param.assetName ?p)))).
             \<forall>a\<in>set (tx_output.amount (output x)).
               unit a = policyId (ex_adapter ex_chain) @ CIP68_222 (stringToHex (burn_param.assetName ?p))
                 \<longrightarrow> 0 \<le> asset.quantity a"
    unfolding u by (simp add: getAddressUTXOAssets_def provider_def ex_chain_def)
  have h3: "exactAmount (getAddressUTXOAssets (ex_adapter ex_chain) ''addr_w''
                          (policyId (ex_adapter ex_chain) @ CIP68_222 (stringToHex (burn_param.assetName ?p))))
             (policyId (ex_adapter ex_chain) @ CIP68_222 (stringToHex (burn_param.assetName ?p))) = 5"
    unfolding u by (rule ex_exact)
  have h4: "(5::int) < 2 ^ 53" by simp
  have h5: "\<bar>burn_param.quantity ?p\<bar> < 2 ^ 53" by simp
  have h6: "\<bar>5 + burn_param.quantity ?p\<bar> < 2 ^ 53" by simp
  have h7: "- burn_param.quantity ?p \<noteq> 5" by simp
  show ?thesis
    using burn_quantity_arithmetic [OF h1 h2 h3 h4 h5 h6 h7, of "[]"]
    by (simp add: hex_a CIP68_222_def)
qed

lemma ulp_ex1: "ulp 9007199254740993 = 2"
  by (subst ulp.simps) (simp add: ulp_small)

lemma ulp_ex2: "ulp 9007199254740992 = 2"
  by (subst ulp.simps) (simp add: ulp_small)

lemma round53_ex1: "round53 9007199254740993 = 9007199254740992"
  by (simp add: round53_def ulp_ex1 Let_def)

lemma round53_ex2: "round53 9007199254740992 = 9007199254740992"
  by (simp add: round53_def ulp_ex2 Let_def)

text \<open>
  Without the bound the computation is not exact: \<^verbatim>\<open>Number('9007199254740993')\<close> is
  \<open>9007199254740992\<close>, so a wallet holding \<open>2^53 + 1\<close> tokens is taken to hold \<open>2^53\<close>.
\<close>

theorem held_amount_rounds_counterexample:
  "exactAmount ex_big_utxos ''pol000de14061'' = 9007199254740993 \<and>
   heldAmount ex_big_utxos ''pol000de14061'' = 9007199254740992"
  by (simp add: exactAmount_def heldAmount_def ex_big_utxos_def js_plus_def js_Number_def
        round53_ex1 round53_ex2)

subsection \<open>Burn needs the store UTxO\<close>

lemma locateStoreUtxo_by_asset_absent:
  assumes "h = None \<or> h = Some []"
      and "fetchAddressUTxOs ad (storeAddress ad) (Some (policyId ad @ CIP68_100 (stringToHex name))) = []"
  shows "locateStoreUtxo ad name h = Inl (Error ''Store UTXO not found'')"
  using assms by (auto simp: locateStoreUtxo_def getAddressUTXOAsset_def)

lemma find_None_hash:
  "\<forall>u\<in>set us. tx_input.txHash (input u) \<noteq> t \<Longrightarrow> find (\<lambda>u. tx_input.txHash (input u) = t) us = None"
  by (induction us) auto

lemma locateStoreUtxo_by_hash_absent:
  assumes "h = Some t" and "t \<noteq> []"
      and "\<forall>u\<in>set (fetchAddressUTxOs ad (storeAddress ad) None). tx_input.txHash (input u) \<noteq> t"
  shows "locateStoreUtxo ad name h = Inl (Error ''No UTXOs found in getUtxoForTx method.'')"
  using assms by (simp add: locateStoreUtxo_def getUtxoForTx_def find_None_hash)

lemma burn_no_wallet: "getWalletForTx ad = Inl e \<Longrightarrow> burn cfg ad params tx = (Inl e, tx)"
  by (simp add: burn_def)

text \<open>
  C10, as the source has it. \<open>burn\<close> looks the store UTxO up before it chooses a
  branch: by transaction hash when one is given, else by the reference token at the store
  address. When the lookup finds nothing (without a hash: no UTxO at the store address holds
  the reference token; with a hash: no UTxO at the store address has it), the callback
  throws, whatever the quantity, so also where the partial branch would have run; and a
  \<open>burn\<close> call whose list has such an asset throws, whatever the wallet holds. So
  without a transaction hash no partial burn is emitted for an asset whose reference token
  is absent.
\<close>

theorem burn_requires_store_utxo:
  assumes "((burn_param.txHash p = None \<or> burn_param.txHash p = Some []) \<and>
            fetchAddressUTxOs ad (storeAddress ad)
              (Some (policyId ad @ CIP68_100 (stringToHex (burn_param.assetName p)))) = []) \<or>
           (\<exists>t. burn_param.txHash p = Some t \<and> t \<noteq> [] \<and>
                (\<forall>u\<in>set (fetchAddressUTxOs ad (storeAddress ad) None). tx_input.txHash (input u) \<noteq> t))"
  shows "(\<exists>e. \<forall>q tx. burn_asset ad walletAddress (p\<lparr>burn_param.quantity := q\<rparr>) tx = Inl e) \<and>
         (p \<in> set params \<longrightarrow> (\<exists>e. fst (burn cfg ad params tx0) = Inl e))"
proof -
  from assms obtain e where loc: "locateStoreUtxo ad (burn_param.assetName p) (burn_param.txHash p) = Inl e"
    using locateStoreUtxo_by_asset_absent locateStoreUtxo_by_hash_absent by blast
  have cb: "burn_asset ad w (p\<lparr>burn_param.quantity := q\<rparr>) tx = Inl e" for q tx w
    using loc by (simp add: burn_asset_def Let_def)
  have "\<exists>e. fst (burn cfg ad params tx0) = Inl e" if p: "p \<in> set params"
    using getWalletForTx_cases [of ad]
  proof (elim disjE exE)
    fix e' assume "getWalletForTx ad = Inl e'"
    from burn_no_wallet [OF this] show ?thesis by simp
  next
    fix utxos collateral
    assume w: "getWalletForTx ad = Inr (utxos, collateral, getChangeAddress (meshWallet ad))"
    have "\<And>s. \<exists>e. burn_asset ad (getChangeAddress (meshWallet ad)) p s = Inl e"
      using cb [of _ "burn_param.quantity p"] by auto
    from promise_all_error [OF p, of "burn_asset ad (getChangeAddress (meshWallet ad))", OF this]
    obtain e' where "fst (promise_all (burn_asset ad (getChangeAddress (meshWallet ad))) params tx0) = Some e'"
      by blast
    then show ?thesis using w by (auto simp: burn_def split: prod.splits option.splits)
  qed
  then show ?thesis using cb by blast
qed

text \<open>
Asset \<open>b\<close> has no reference token in the sample state: burning one token of it throws.
\<close>

theorem burn_requires_store_utxo_witness:
  "fetchAddressUTxOs (ex_adapter ex_chain) ''addr_s'' (Some ''pol000643b062'') = [] \<and>
   burn_asset (ex_adapter ex_chain) ''addr_w''
     \<lparr>burn_param.assetName = ''b'', burn_param.quantity = - 1, burn_param.txHash = None\<rparr> [] =
     Inl (Error ''Store UTXO not found'') \<and>
   (\<exists>e. fst (burn ex_cfg (ex_adapter ex_chain)
      [\<lparr>burn_param.assetName = ''b'', burn_param.quantity = - 1, burn_param.txHash = None\<rparr>] []) = Inl e)"
proof -
  let ?p = "\<lparr>burn_param.assetName = ''b'', burn_param.quantity = - 1, burn_param.txHash = None\<rparr>"
  have f: "fetchAddressUTxOs (ex_adapter ex_chain) ''addr_s'' (Some ''pol000643b062'') = []"
    by (simp add: provider_def ex_chain_def)
  have h: "((burn_param.txHash ?p = None \<or> burn_param.txHash ?p = Some []) \<and>
            fetchAddressUTxOs (ex_adapter ex_chain) (storeAddress (ex_adapter ex_chain))
              (Some (policyId (ex_adapter ex_chain) @ CIP68_100 (stringToHex (burn_param.assetName ?p)))) = []) \<or>
           (\<exists>t. burn_param.txHash ?p = Some t \<and> t \<noteq> [] \<and>
                (\<forall>u\<in>set (fetchAddressUTxOs (ex_adapter ex_chain) (storeAddress (ex_adapter ex_chain)) None).
                    tx_input.txHash (input u) \<noteq> t))"
    using f by (simp add: hex_b CIP68_100_def)
  have b: "burn_asset (ex_adapter ex_chain) ''addr_w'' ?p [] = Inl (Error ''Store UTXO not found'')"
    using f by (simp add: burn_asset_def locateStoreUtxo_def getAddressUTXOAsset_def hex_b CIP68_100_def Let_def)
  show ?thesis
    using burn_requires_store_utxo [OF h, of "''addr_w''" "[?p]" ex_cfg "[]"] f b
    by simp
qed

text \<open>
  With a transaction hash the lookup accepts any UTxO at the store address that has the
  hash. Asset \<open>b\<close> has no reference token in the sample state; a burn of one token of it
  that names the transaction of asset \<open>a\<close>'s store UTxO is not refused, and the partial
  branch runs.
\<close>

theorem burn_by_hash_counterexample:
  "fetchAddressUTxOs (ex_adapter ex_chain) ''addr_s'' (Some ''pol000643b062'') = [] \<and>
   burn_asset (ex_adapter ex_chain) ''addr_w''
     \<lparr>burn_param.assetName = ''b'', burn_param.quantity = - 1, burn_param.txHash = Some ''tx1''\<rparr> [] =
     Inr [MintPlutusScriptV3, Mint (- 1) ''pol'' ''000de14062'', MintRedeemerValue (PConstr 1 []),
          MintingScript ''mintcbor'',
          TxOut ''addr_w'' [\<lparr>unit = ''pol000de14062'', quantity = - 1\<rparr>]]"
  by (simp add: burn_asset_def locateStoreUtxo_def getUtxoForTx_def getAddressUTXOAssets_def
        heldAmount_def provider_def ex_chain_def hex_b CIP68_100_def CIP68_222_def
        js_Number_def js_plus_def js_String_exact round53_exact mConStr1_def Let_def)

subsection \<open>Update replaces the datum\<close>

text \<open>
  C4, as the source has it. For an asset whose store UTxO is found, \<open>update\<close> spends that
  UTxO and creates an output at the store address with exactly one reference token and an
  inline datum that is \<^verbatim>\<open>metadataToCip68\<close> of the supplied metadata: constructor 0 over the
  map of the supplied entries, and the version 1. Of the UTxO found the instructions carry
  the transaction hash and the output index and nothing else, so no entry of the stored
  datum, \<open>_pk\<close> included, reaches the new one. An \<open>update\<close> call for this one asset hands
  exactly these instructions, followed by the closing ones, to \<^verbatim>\<open>complete()\<close>.
\<close>

theorem update_replaces_datum:
  assumes "locateStoreUtxo ad (update_param.assetName p) (update_param.txHash p) = Inr storeUtxo"
  shows "(let new = [SpendingPlutusScriptV3,
                     TxIn (tx_input.txHash (input storeUtxo)) (outputIndex (input storeUtxo)),
                     TxInInlineDatumPresent,
                     TxInRedeemerValue (PConstr 0 []),
                     TxInScript (storeScriptCbor ad),
                     TxOut (storeAddress ad)
                       [\<lparr>unit = policyId ad @ CIP68_100 (stringToHex (update_param.assetName p)),
                         asset.quantity = 1\<rparr>],
                     TxOutInlineDatumValue (PConstr 0 [PMap (update_param.metadata p), PInt 1])]
          in update_asset ad p tx = Inr (tx @ new) \<and>
             (\<forall>utxos collateral walletAddress.
                getWalletForTx ad = Inr (utxos, collateral, walletAddress) \<longrightarrow>
                update cfg ad [p] tx =
                  (complete cfg (tx @ new @ finalize cfg utxos collateral walletAddress),
                   tx @ new @ finalize cfg utxos collateral walletAddress)))"
  using assms
  by (simp add: update_asset_def update_def promise_all_single mConStr0_def metadataToCip68_def Let_def)

text \<open>
An update of the sample asset with two entries.
\<close>

theorem update_replaces_datum_witness:
  "locateStoreUtxo (ex_adapter ex_chain) ''a'' None =
     Inr (ex_utxo ''tx1'' ''addr_s'' [\<lparr>unit = ''pol000643b061'', quantity = 1\<rparr>]
        (Some (Tagged 121 [CMap [(''name'', ''old''), (''_pk'', ''pkh_w'')], CInt 1]))) \<and>
   update_asset (ex_adapter ex_chain)
     \<lparr>update_param.assetName = ''a'', update_param.metadata = [(''name'', ''new''), (''level'', ''2'')], update_param.txHash = None\<rparr> [] =
     Inr [SpendingPlutusScriptV3, TxIn ''tx1'' 0, TxInInlineDatumPresent,
          TxInRedeemerValue (PConstr 0 []), TxInScript ''storecbor'',
          TxOut ''addr_s'' [\<lparr>unit = ''pol000643b061'', quantity = 1\<rparr>],
          TxOutInlineDatumValue (PConstr 0 [PMap [(''name'', ''new''), (''level'', ''2'')], PInt 1])] \<and>
   fst (update ex_cfg (ex_adapter ex_chain)
     [\<lparr>update_param.assetName = ''a'', update_param.metadata = [(''name'', ''new''), (''level'', ''2'')], update_param.txHash = None\<rparr>] []) =
     Inr ''unsigned''"
proof -
  let ?p = "\<lparr>update_param.assetName = ''a'', update_param.metadata = [(''name'', ''new''), (''level'', ''2'')], update_param.txHash = None\<rparr>"
  have h1: "locateStoreUtxo (ex_adapter ex_chain) (update_param.assetName ?p) (update_param.txHash ?p) =
           Inr (ex_utxo ''tx1'' ''addr_s'' [\<lparr>unit = ''pol000643b061'', quantity = 1\<rparr>]
                 (Some (Tagged 121 [CMap [(''name'', ''old''), (''_pk'', ''pkh_w'')], CInt 1])))"
    by (simp add: ex_locate)
  show ?thesis
    using update_replaces_datum [OF h1, of "[]" ex_cfg] ex_wallet
    by (simp add: ex_locate hex_a CIP68_100_def Let_def)
qed

text \<open>
  The claim as worded keeps the original \<open>_pk\<close>. The stored datum of the sample asset has
  a \<open>_pk\<close>, which \<open>getPkHash\<close> reads as \<open>706b685f77\<close>; an update with the metadata
  \<open>name = new\<close> hands the builder a datum whose map has that one entry, and no \<open>_pk\<close>.
\<close>

theorem update_drops_pk_counterexample:
  "getPkHash (storedDatum (ex_adapter ex_chain) ''a'') = Inr (Some ''706b685f77'') \<and>
   update_asset (ex_adapter ex_chain)
     \<lparr>update_param.assetName = ''a'', update_param.metadata = [(''name'', ''new'')], update_param.txHash = None\<rparr> [] =
     Inr [SpendingPlutusScriptV3, TxIn ''tx1'' 0, TxInInlineDatumPresent,
          TxInRedeemerValue (PConstr 0 []), TxInScript ''storecbor'',
          TxOut ''addr_s'' [\<lparr>unit = ''pol000643b061'', quantity = 1\<rparr>],
          TxOutInlineDatumValue (PConstr 0 [PMap [(''name'', ''new'')], PInt 1])]"
  by (simp add: storedDatum_def ex_ref_a getPkHash_def toString_hex_def hexdigit_def
        update_asset_def ex_locate mConStr0_def metadataToCip68_def hex_a CIP68_100_def)

subsection \<open>Mint: what a successful call emits\<close>

lemma mint_asset_Inr:
  assumes "mint_asset cfg ad w aE aN p (b, m) = Inr s'"
  shows "s' = (b @ mintInstrs ad aE p, receiver_push m (receiverKeyOf w p) (userAsset ad p))"
  using assms
  by (auto simp: mint_asset_def mintInstrs_def receiverKeyOf_def userAsset_def mConStr0_def Let_def
           split: if_splits sum.splits)

lemma promise_all_mint:
  assumes "promise_all (mint_asset cfg ad w aE aN) ps (b, m) = (None, (b', m'))"
  shows "b' = b @ concat (map (mintInstrs ad aE) ps) \<and>
         m' = foldl (\<lambda>m p. receiver_push m (receiverKeyOf w p) (userAsset ad p)) m ps"
  using assms
proof (induction ps arbitrary: b m)
  case Nil
  then show ?case by simp
next
  case (Cons p ps)
  show ?case
  proof (cases "mint_asset cfg ad w aE aN p (b, m)")
    case (Inl e)
    with Cons.prems show ?thesis by simp
  next
    case (Inr s')
    from mint_asset_Inr [OF Inr]
    have s': "s' = (b @ mintInstrs ad aE p, receiver_push m (receiverKeyOf w p) (userAsset ad p))" .
    from Cons.prems Inr s'
    have "promise_all (mint_asset cfg ad w aE aN) ps
            (b @ mintInstrs ad aE p, receiver_push m (receiverKeyOf w p) (userAsset ad p)) = (None, (b', m'))"
      by simp
    from Cons.IH [OF this] show ?thesis by simp
  qed
qed

lemma firstOccurrences_snoc:
  "firstOccurrences (xs @ [x]) = (if x \<in> set xs then firstOccurrences xs else firstOccurrences xs @ [x])"
  by (simp add: firstOccurrences_def)

lemma set_firstOccurrences [simp]: "set (firstOccurrences xs) = set xs"
  by (simp add: firstOccurrences_def)

lemma distinct_firstOccurrences [simp]: "distinct (firstOccurrences xs)"
  by (simp add: firstOccurrences_def)

lemma map_of_grouped:
  "map_of (map (\<lambda>r. (r, g r)) rs) k = (if k \<in> set rs then Some (g k) else None)"
  by (induction rs) auto

lemma foldl_receiver_push:
  "foldl (\<lambda>m p. receiver_push m (key p) (val p)) [] ps =
   map (\<lambda>r. (r, map val (filter (\<lambda>p. key p = r) ps))) (firstOccurrences (map key ps))"
proof (induction ps rule: rev_induct)
  case Nil
  then show ?case by (simp add: firstOccurrences_def)
next
  case (snoc p ps)
  let ?G = "map (\<lambda>r. (r, map val (filter (\<lambda>p. key p = r) ps))) (firstOccurrences (map key ps))"
  show ?case
  proof (cases "key p \<in> key ` set ps")
    case True
    then have "map_of ?G (key p) = Some (map val (filter (\<lambda>q. key q = key p) ps))"
      by (simp add: map_of_grouped)
    then have "receiver_push ?G (key p) (val p) =
               map (\<lambda>(k', as). if k' = key p then (k', as @ [val p]) else (k', as)) ?G"
      by (simp add: receiver_push_def)
    also have "\<dots> = map (\<lambda>r. (r, map val (filter (\<lambda>q. key q = r) (ps @ [p]))))
                        (firstOccurrences (map key ps))"
      by auto
    finally show ?thesis using True snoc by (simp add: firstOccurrences_snoc)
  next
    case False
    then have "map_of ?G (key p) = None"
      by (simp add: map_of_grouped)
    then have "receiver_push ?G (key p) (val p) = ?G @ [(key p, [val p])]"
      by (simp add: receiver_push_def)
    moreover have "filter (\<lambda>q. key q = key p) ps = []"
      using False by (auto simp: filter_empty_conv image_iff)
    moreover have "map (\<lambda>r. (r, map val (filter (\<lambda>q. key q = r) (ps @ [p])))) (firstOccurrences (map key ps)) = ?G"
      using False by auto
    ultimately show ?thesis using False snoc by (simp add: firstOccurrences_snoc)
  qed
qed

lemma mint_asset_existing:
  "mint_asset cfg ad w True aN p (b, m) =
     (case getPkHash (storedDatum ad (mint_param.assetName p)) of
        Inl e \<Rightarrow> Inl e
      | Inr pk \<Rightarrow>
          if pk \<noteq> Some (pubKeyHash (deserializeAddress cfg w))
          then Inl (Error (mint_param.assetName p @ '' has been exist''))
          else Inr (b @ mintInstrs ad True p, receiver_push m (receiverKeyOf w p) (userAsset ad p)))"
  by (simp add: mint_asset_def storedDatum_def referenceUtxo_def mintInstrs_def receiverKeyOf_def
        userAsset_def mConStr0_def Let_def split: sum.splits)

lemma mint_unfold:
  assumes "getWalletForTx ad = Inr (utxos, collateral, w)"
  shows "mint cfg ad params utxosInput tx =
     (let allExist = list_all (\<lambda>p. hasPlutusData (referenceUtxo ad (mint_param.assetName p))) params;
          allNew = list_all (\<lambda>p. \<not> hasPlutusData (referenceUtxo ad (mint_param.assetName p))) params
      in if \<not> allExist \<and> \<not> allNew then
           (Inl (Error (''Transaction only supports either minting new or existing assets.''
                  @ [CHR 0x0A] @ ''Assets already exist: '' @
                  join '', '' (map mint_param.assetName
                     (filter (\<lambda>p. hasPlutusData (referenceUtxo ad (mint_param.assetName p))) params)))),
            tx @ [MintPlutusScriptV3] @ inputInstrs utxosInput)
         else
           (case promise_all (mint_asset cfg ad w allExist allNew) params
                   (tx @ [MintPlutusScriptV3] @ inputInstrs utxosInput, []) of
              (Some e, (b, m)) \<Rightarrow> (Inl e, b)
            | (None, (b, m)) \<Rightarrow>
                (complete cfg
                   (b @ map (\<lambda>(r, as). TxOut r as) m @
                      [ChangeAddress w,
                       RequiredSignerHash (pubKeyHash (deserializeAddress cfg w)),
                       SelectUtxosFrom utxos,
                       TxInCollateral (tx_input.txHash (input collateral)) (outputIndex (input collateral))
                         (amount (output collateral)) (address (output collateral)),
                       SetNetwork (APP_NETWORK cfg)]),
                 b @ map (\<lambda>(r, as). TxOut r as) m @
                      [ChangeAddress w,
                       RequiredSignerHash (pubKeyHash (deserializeAddress cfg w)),
                       SelectUtxosFrom utxos,
                       TxInCollateral (tx_input.txHash (input collateral)) (outputIndex (input collateral))
                         (amount (output collateral)) (address (output collateral)),
                       SetNetwork (APP_NETWORK cfg)])))"
proof -
  have 1: "list_all (\<lambda>(n, h, u). h)
             (map (\<lambda>p. let u = getAddressUTXOAsset ad (storeAddress ad)
                            (policyId ad @ CIP68_100 (stringToHex (mint_param.assetName p)))
                  in (mint_param.assetName p, hasPlutusData u, u)) params) =
           list_all (\<lambda>p. hasPlutusData (referenceUtxo ad (mint_param.assetName p))) params"
    by (simp add: list_all_iff referenceUtxo_def Let_def)
  have 2: "list_all (\<lambda>(n, h, u). \<not> h)
             (map (\<lambda>p. let u = getAddressUTXOAsset ad (storeAddress ad)
                            (policyId ad @ CIP68_100 (stringToHex (mint_param.assetName p)))
                  in (mint_param.assetName p, hasPlutusData u, u)) params) =
           list_all (\<lambda>p. \<not> hasPlutusData (referenceUtxo ad (mint_param.assetName p))) params"
    by (simp add: list_all_iff referenceUtxo_def Let_def)
  have 3: "map (\<lambda>(n, h, u). n) (filter (\<lambda>(n, h, u). h)
             (map (\<lambda>p. let u = getAddressUTXOAsset ad (storeAddress ad)
                            (policyId ad @ CIP68_100 (stringToHex (mint_param.assetName p)))
                  in (mint_param.assetName p, hasPlutusData u, u)) params)) =
           map mint_param.assetName
             (filter (\<lambda>p. hasPlutusData (referenceUtxo ad (mint_param.assetName p))) params)"
    by (induction params) (simp_all add: referenceUtxo_def Let_def)
  show ?thesis
    unfolding mint_def Let_def assms
    by (simp add: 1 [unfolded Let_def] 2 [unfolded Let_def] 3 [unfolded Let_def] inputInstrs_def
          split: prod.splits option.splits)
qed

lemma mint_no_wallet: "getWalletForTx ad = Inl e \<Longrightarrow> mint cfg ad params utxosInput tx = (Inl e, tx)"
  by (simp add: mint_def)

subsection \<open>Mint: mixed lists are rejected\<close>

text \<open>
  C2. When the list has an asset whose reference token exists at the store address (a UTxO
  holding it with inline data, which is how \<open>mint\<close> tests existence) and an asset
  whose reference token does not, \<open>mint\<close> throws, and the builder has received nothing but
  the opening \<^verbatim>\<open>mintPlutusScriptV3()\<close> and the inputs of \<open>utxosInput\<close>: no mint action
  and no output, and \<^verbatim>\<open>complete()\<close> is not reached, so there is nothing to submit. With a
  usable wallet the error is the one that lists the names of the existing assets.
\<close>

theorem mint_mixed_rejected:
  assumes "p1 \<in> set params" and "hasPlutusData (referenceUtxo ad (mint_param.assetName p1))"
      and "p2 \<in> set params" and "\<not> hasPlutusData (referenceUtxo ad (mint_param.assetName p2))"
  shows "(\<exists>e. fst (mint cfg ad params utxosInput tx) = Inl e) \<and>
         (snd (mint cfg ad params utxosInput tx) = tx \<or>
          snd (mint cfg ad params utxosInput tx) = tx @ [MintPlutusScriptV3] @ inputInstrs utxosInput) \<and>
         (\<forall>q pol n. Mint q pol n \<notin> set ([MintPlutusScriptV3] @ inputInstrs utxosInput)) \<and>
         (\<forall>r as. TxOut r as \<notin> set ([MintPlutusScriptV3] @ inputInstrs utxosInput)) \<and>
         (\<forall>utxos collateral walletAddress.
            getWalletForTx ad = Inr (utxos, collateral, walletAddress) \<longrightarrow>
            mint cfg ad params utxosInput tx =
              (Inl (Error (''Transaction only supports either minting new or existing assets.''
                     @ [CHR 0x0A] @ ''Assets already exist: '' @
                     join '', '' (map mint_param.assetName
                        (filter (\<lambda>p. hasPlutusData (referenceUtxo ad (mint_param.assetName p))) params)))),
               tx @ [MintPlutusScriptV3] @ inputInstrs utxosInput))"
proof -
  have nE: "\<not> list_all (\<lambda>p. hasPlutusData (referenceUtxo ad (mint_param.assetName p))) params"
    using assms(3,4) by (auto simp: list_all_iff)
  have nN: "\<not> list_all (\<lambda>p. \<not> hasPlutusData (referenceUtxo ad (mint_param.assetName p))) params"
    using assms(1,2) by (auto simp: list_all_iff)
  have ok: "mint cfg ad params utxosInput tx =
              (Inl (Error (''Transaction only supports either minting new or existing assets.''
                     @ [CHR 0x0A] @ ''Assets already exist: '' @
                     join '', '' (map mint_param.assetName
                        (filter (\<lambda>p. hasPlutusData (referenceUtxo ad (mint_param.assetName p))) params)))),
               tx @ [MintPlutusScriptV3] @ inputInstrs utxosInput)"
    if "getWalletForTx ad = Inr (utxos, collateral, walletAddress)" for utxos collateral walletAddress
    using nE nN by (simp add: mint_unfold [OF that])
  have shape: "(\<forall>q pol n. Mint q pol n \<notin> set ([MintPlutusScriptV3] @ inputInstrs utxosInput)) \<and>
         (\<forall>r as. TxOut r as \<notin> set ([MintPlutusScriptV3] @ inputInstrs utxosInput))"
    by (auto simp: inputInstrs_def split: option.splits)
  from getWalletForTx_cases [of ad]
  have "(\<exists>e. fst (mint cfg ad params utxosInput tx) = Inl e) \<and>
         (snd (mint cfg ad params utxosInput tx) = tx \<or>
          snd (mint cfg ad params utxosInput tx) = tx @ [MintPlutusScriptV3] @ inputInstrs utxosInput)"
  proof (elim disjE exE)
    fix e assume "getWalletForTx ad = Inl e"
    from mint_no_wallet [OF this] show ?thesis by simp
  next
    fix utxos collateral
    assume "getWalletForTx ad = Inr (utxos, collateral, getChangeAddress (meshWallet ad))"
    from ok [OF this] show ?thesis by simp
  qed
  then show ?thesis using ok shape by blast
qed

text \<open>
Asset \<open>a\<close> exists and asset \<open>b\<close> does not: the error names \<open>a\<close>.
\<close>

theorem mint_mixed_rejected_witness:
  "hasPlutusData (referenceUtxo (ex_adapter ex_chain) ''a'') \<and>
   \<not> hasPlutusData (referenceUtxo (ex_adapter ex_chain) ''b'') \<and>
   mint ex_cfg (ex_adapter ex_chain)
     [\<lparr>mint_param.assetName = ''a'', mint_param.metadata = [], mint_param.quantity = 1, receiver = []\<rparr>,
      \<lparr>mint_param.assetName = ''b'', mint_param.metadata = [], mint_param.quantity = 1, receiver = []\<rparr>]
     None [] =
   (Inl (Error (''Transaction only supports either minting new or existing assets.''
           @ [CHR 0x0A] @ ''Assets already exist: a'')),
    [MintPlutusScriptV3])"
proof -
  let ?pa = "\<lparr>mint_param.assetName = ''a'', mint_param.metadata = [], mint_param.quantity = 1, receiver = []\<rparr>"
  let ?pb = "\<lparr>mint_param.assetName = ''b'', mint_param.metadata = [], mint_param.quantity = 1, receiver = []\<rparr>"
  have h2: "?pa \<in> set [?pa, ?pb]" by simp
  have h3: "hasPlutusData (referenceUtxo (ex_adapter ex_chain) (mint_param.assetName ?pa))"
    by (simp add: ex_ref_a hasPlutusData_def)
  have h4: "?pb \<in> set [?pa, ?pb]" by simp
  have h5: "\<not> hasPlutusData (referenceUtxo (ex_adapter ex_chain) (mint_param.assetName ?pb))"
    by (simp add: ex_ref_b hasPlutusData_def)
  show ?thesis
    using mint_mixed_rejected [OF h2 h3 h4 h5, of ex_cfg None "[]"] ex_wallet
    by (simp add: ex_ref_a ex_ref_b hasPlutusData_def inputInstrs_def)
qed

subsection \<open>Mint: only the owner mints more of an existing asset\<close>

lemma mint_owner_check_usable_wallet:
  assumes "getWalletForTx ad = Inr (utxos, collateral, walletAddress)"
      and "\<forall>x\<in>set params. hasPlutusData (referenceUtxo ad (mint_param.assetName x))"
      and "p \<in> set params"
      and "getPkHash (storedDatum ad (mint_param.assetName p)) = Inr (Some pk)"
      and "pk \<noteq> pubKeyHash (deserializeAddress cfg walletAddress)"
  shows "(\<forall>s aN. mint_asset cfg ad walletAddress True aN p s =
                  Inl (Error (mint_param.assetName p @ '' has been exist''))) \<and>
         (\<exists>e. fst (mint cfg ad params utxosInput tx) = Inl e) \<and>
         (\<forall>q. Mint q (policyId ad) (CIP68_222 (stringToHex (mint_param.assetName p)))
                \<in> set (snd (mint cfg ad params utxosInput tx)) \<longrightarrow>
              Mint q (policyId ad) (CIP68_222 (stringToHex (mint_param.assetName p))) \<in> set tx) \<and>
         (\<forall>x s s' aN. mint_asset cfg ad walletAddress True aN x s = Inr s' \<longrightarrow>
              getPkHash (storedDatum ad (mint_param.assetName x)) =
                Inr (Some (pubKeyHash (deserializeAddress cfg walletAddress))))"
proof -
  let ?N = "CIP68_222 (stringToHex (mint_param.assetName p))"
  let ?b0 = "tx @ [MintPlutusScriptV3] @ inputInstrs utxosInput"
  let ?f = "mint_asset cfg ad walletAddress True
              (list_all (\<lambda>p. \<not> hasPlutusData (referenceUtxo ad (mint_param.assetName p))) params)"
  have allE: "list_all (\<lambda>p. hasPlutusData (referenceUtxo ad (mint_param.assetName p))) params"
    using assms(2) by (simp add: list_all_iff)
  have cb: "mint_asset cfg ad walletAddress True aN p s =
              Inl (Error (mint_param.assetName p @ '' has been exist''))" for s aN
    using assms(4,5) by (cases s) (simp add: mint_asset_existing)
  have owner: "getPkHash (storedDatum ad (mint_param.assetName x)) =
                Inr (Some (pubKeyHash (deserializeAddress cfg walletAddress)))"
    if "mint_asset cfg ad walletAddress True aN x s = Inr s'" for x s s' aN
    using that by (cases s) (auto simp: mint_asset_existing split: sum.splits if_splits)
  have "\<And>s. \<exists>e. ?f p s = Inl e" using cb by blast
  from promise_all_error [OF assms(3), of ?f, OF this]
  obtain e where e: "fst (promise_all ?f params (?b0, [])) = Some e" by blast
  have res: "fst (mint cfg ad params utxosInput tx) = Inl e"
    using e allE by (auto simp: mint_unfold [OF assms(1)] split: prod.splits option.splits)
  have inv: "\<forall>q. Mint q (policyId ad) ?N \<in> set (fst (snd (promise_all ?f params (?b0, [])))) \<longrightarrow>
                 Mint q (policyId ad) ?N \<in> set tx"
  proof (rule promise_all_invariant
           [where P = "\<lambda>s. \<forall>q. Mint q (policyId ad) ?N \<in> set (fst s) \<longrightarrow> Mint q (policyId ad) ?N \<in> set tx"])
    show "\<forall>q. Mint q (policyId ad) ?N \<in> set (fst (?b0, [])) \<longrightarrow> Mint q (policyId ad) ?N \<in> set tx"
      by (auto simp: inputInstrs_def split: option.splits)
  next
    fix x s s'
    assume x: "x \<in> set params"
       and P: "\<forall>q. Mint q (policyId ad) ?N \<in> set (fst s) \<longrightarrow> Mint q (policyId ad) ?N \<in> set tx"
       and ok: "?f x s = Inr s'"
    obtain b m where s: "s = (b, m)" by (cases s)
    from mint_asset_Inr [OF ok [unfolded s]]
    have s': "fst s' = b @ mintInstrs ad True x" by simp
    have "stringToHex (mint_param.assetName x) \<noteq> stringToHex (mint_param.assetName p)"
    proof
      assume eq: "stringToHex (mint_param.assetName x) = stringToHex (mint_param.assetName p)"
      then have "storedDatum ad (mint_param.assetName x) = storedDatum ad (mint_param.assetName p)"
        by (simp add: storedDatum_def referenceUtxo_def)
      with owner [OF ok] assms(4,5) show False by simp
    qed
    then have "Mint q (policyId ad) ?N \<notin> set (mintInstrs ad True x)" for q
      by (simp add: mintInstrs_def CIP68_222_def)
    then show "\<forall>q. Mint q (policyId ad) ?N \<in> set (fst s') \<longrightarrow> Mint q (policyId ad) ?N \<in> set tx"
      using P s s' by auto
  qed
  have fin: "snd (mint cfg ad params utxosInput tx) = fst (snd (promise_all ?f params (?b0, [])))"
    using e allE by (auto simp: mint_unfold [OF assms(1)] split: prod.splits option.splits)
  show ?thesis using cb res inv owner unfolding fin by blast
qed

text \<open>
  C1. Let every asset of the list have a reference token, and let the datum of one of
  them store a \<open>_pk\<close> that differs from the public-key hash of the caller's wallet. Then
  the callback of that asset throws before it touches the builder, \<open>mint\<close> throws and
  \<^verbatim>\<open>complete()\<close> builds no transaction, and the builder has no mint action for that asset
  that it did not have before the call. Conversely, a callback for an existing asset
  succeeds only when the stored \<open>_pk\<close> is the caller's public-key hash.
\<close>

theorem mint_existing_requires_owner:
  assumes "\<forall>x\<in>set params. hasPlutusData (referenceUtxo ad (mint_param.assetName x))"
      and "p \<in> set params"
      and "getPkHash (storedDatum ad (mint_param.assetName p)) = Inr (Some pk)"
      and "pk \<noteq> pubKeyHash (deserializeAddress cfg (getChangeAddress (meshWallet ad)))"
  shows "(\<forall>s aN. mint_asset cfg ad (getChangeAddress (meshWallet ad)) True aN p s =
                  Inl (Error (mint_param.assetName p @ '' has been exist''))) \<and>
         (\<exists>e. fst (mint cfg ad params utxosInput tx) = Inl e) \<and>
         (\<forall>q. Mint q (policyId ad) (CIP68_222 (stringToHex (mint_param.assetName p)))
                \<in> set (snd (mint cfg ad params utxosInput tx)) \<longrightarrow>
              Mint q (policyId ad) (CIP68_222 (stringToHex (mint_param.assetName p))) \<in> set tx) \<and>
         (\<forall>x s s' aN. mint_asset cfg ad (getChangeAddress (meshWallet ad)) True aN x s = Inr s' \<longrightarrow>
              getPkHash (storedDatum ad (mint_param.assetName x)) =
                Inr (Some (pubKeyHash (deserializeAddress cfg (getChangeAddress (meshWallet ad))))))"
proof -
  let ?w = "getChangeAddress (meshWallet ad)"
  have cb: "mint_asset cfg ad ?w True aN p s =
              Inl (Error (mint_param.assetName p @ '' has been exist''))" for s aN
    using assms(3,4) by (cases s) (simp add: mint_asset_existing)
  have owner: "getPkHash (storedDatum ad (mint_param.assetName x)) =
                Inr (Some (pubKeyHash (deserializeAddress cfg ?w)))"
    if "mint_asset cfg ad ?w True aN x s = Inr s'" for x s s' aN
    using that by (cases s) (auto simp: mint_asset_existing split: sum.splits if_splits)
  from getWalletForTx_cases [of ad]
  have "(\<exists>e. fst (mint cfg ad params utxosInput tx) = Inl e) \<and>
         (\<forall>q. Mint q (policyId ad) (CIP68_222 (stringToHex (mint_param.assetName p)))
                \<in> set (snd (mint cfg ad params utxosInput tx)) \<longrightarrow>
              Mint q (policyId ad) (CIP68_222 (stringToHex (mint_param.assetName p))) \<in> set tx)"
  proof (elim disjE exE)
    fix e assume "getWalletForTx ad = Inl e"
    from mint_no_wallet [OF this] show ?thesis by simp
  next
    fix utxos collateral
    assume w: "getWalletForTx ad = Inr (utxos, collateral, ?w)"
    from mint_owner_check_usable_wallet [OF w assms(1,2,3,4), of utxosInput tx]
    show ?thesis by blast
  qed
  then show ?thesis using cb owner by blast
qed

text \<open>
The sample asset whose stored \<open>_pk\<close> reads \<open>706b685f76\<close> cannot be minted by the wallet
with hash \<open>pkh_w\<close>.
\<close>

theorem mint_existing_requires_owner_witness:
  "getPkHash (storedDatum (ex_adapter ex_chain_foreign) ''a'') = Inr (Some ''706b685f76'') \<and>
   pubKeyHash (deserializeAddress ex_cfg ''addr_w'') = ''pkh_w'' \<and>
   mint_asset ex_cfg (ex_adapter ex_chain_foreign) ''addr_w'' True False
     \<lparr>mint_param.assetName = ''a'', mint_param.metadata = [], mint_param.quantity = 1, receiver = []\<rparr>
     ([MintPlutusScriptV3], []) = Inl (Error ''a has been exist'') \<and>
   (\<exists>e. fst (mint ex_cfg (ex_adapter ex_chain_foreign)
      [\<lparr>mint_param.assetName = ''a'', mint_param.metadata = [], mint_param.quantity = 1, receiver = []\<rparr>]
      None []) = Inl e)"
proof -
  let ?p = "\<lparr>mint_param.assetName = ''a'', mint_param.metadata = [], mint_param.quantity = 1, receiver = []\<rparr>"
  have h2: "\<forall>x\<in>set [?p]. hasPlutusData (referenceUtxo (ex_adapter ex_chain_foreign) (mint_param.assetName x))"
    by (simp add: ex_ref_foreign hasPlutusData_def)
  have h3: "?p \<in> set [?p]" by simp
  have h4: "getPkHash (storedDatum (ex_adapter ex_chain_foreign) (mint_param.assetName ?p)) = Inr (Some ''706b685f76'')"
    by (simp add: storedDatum_def ex_ref_foreign getPkHash_def toString_hex_def hexdigit_def)
  have h5: "''706b685f76'' \<noteq> pubKeyHash (deserializeAddress ex_cfg
              (getChangeAddress (meshWallet (ex_adapter ex_chain_foreign))))" by simp
  show ?thesis
    using mint_existing_requires_owner [OF h2 h3 h4 h5, of None "[]"] h4
    by simp
qed

subsection \<open>Mint: one output per receiver\<close>

text \<open>
  C7. A \<open>mint\<close> call that succeeds has handed to \<^verbatim>\<open>complete()\<close>, after the instructions
  of the single assets (which have no output but the reference-token output of a new
  asset), exactly one output per distinct receiver address, the wallet standing in for an
  empty receiver; the output of a receiver carries the user token and quantity of every
  asset requested for it, in the order of the list.
\<close>

theorem mint_outputs_coalesced:
  assumes "getWalletForTx ad = Inr (utxos, collateral, walletAddress)"
      and "mint cfg ad params utxosInput tx = (Inr unsigned, tx')"
  shows "tx' = tx @ [MintPlutusScriptV3] @ inputInstrs utxosInput @
               concat (map (mintInstrs ad
                  (list_all (\<lambda>p. hasPlutusData (referenceUtxo ad (mint_param.assetName p))) params)) params) @
               coalescedOutputs ad walletAddress params @
               [ChangeAddress walletAddress,
                RequiredSignerHash (pubKeyHash (deserializeAddress cfg walletAddress)),
                SelectUtxosFrom utxos,
                TxInCollateral (tx_input.txHash (input collateral)) (outputIndex (input collateral))
                  (amount (output collateral)) (address (output collateral)),
                SetNetwork (APP_NETWORK cfg)] \<and>
         distinct (firstOccurrences (map (receiverKeyOf walletAddress) params)) \<and>
         set (firstOccurrences (map (receiverKeyOf walletAddress) params)) =
           receiverKeyOf walletAddress ` set params"
proof -
  let ?aE = "list_all (\<lambda>p. hasPlutusData (referenceUtxo ad (mint_param.assetName p))) params"
  let ?aN = "list_all (\<lambda>p. \<not> hasPlutusData (referenceUtxo ad (mint_param.assetName p))) params"
  let ?b0 = "tx @ [MintPlutusScriptV3] @ inputInstrs utxosInput"
  obtain r b m where pa: "promise_all (mint_asset cfg ad walletAddress ?aE ?aN) params (?b0, []) = (r, (b, m))"
    by (metis surj_pair)
  have notmixed: "\<not> (\<not> ?aE \<and> \<not> ?aN)"
    using assms(2) by (auto simp: mint_unfold [OF assms(1)] Let_def split: if_splits)
  have r: "r = None"
    using assms(2) pa notmixed
    by (cases r) (auto simp: mint_unfold [OF assms(1)] Let_def split: if_splits)
  from promise_all_mint [OF pa [unfolded r]]
  have b: "b = ?b0 @ concat (map (mintInstrs ad ?aE) params)"
   and m: "m = foldl (\<lambda>m p. receiver_push m (receiverKeyOf walletAddress p) (userAsset ad p)) [] params"
    by simp_all
  have outs: "map (\<lambda>(r, as). TxOut r as) m = coalescedOutputs ad walletAddress params"
    unfolding m foldl_receiver_push coalescedOutputs_def by simp
  have "tx' = b @ map (\<lambda>(r, as). TxOut r as) m @
               [ChangeAddress walletAddress,
                RequiredSignerHash (pubKeyHash (deserializeAddress cfg walletAddress)),
                SelectUtxosFrom utxos,
                TxInCollateral (tx_input.txHash (input collateral)) (outputIndex (input collateral))
                  (amount (output collateral)) (address (output collateral)),
                SetNetwork (APP_NETWORK cfg)]"
    using assms(2) pa r notmixed
    by (auto simp: mint_unfold [OF assms(1)] Let_def split: if_splits)
  then show ?thesis unfolding outs b by simp
qed

text \<open>
Three new assets, two of them for the same receiver: two receiver outputs.
\<close>

theorem mint_outputs_coalesced_witness:
  "mint ex_cfg (ex_adapter ex_chain)
     [\<lparr>mint_param.assetName = ''b'', mint_param.metadata = [(''name'', ''B'')], mint_param.quantity = 1, receiver = ''addr_r''\<rparr>,
      \<lparr>mint_param.assetName = ''c'', mint_param.metadata = [(''name'', ''C'')], mint_param.quantity = 2, receiver = []\<rparr>,
      \<lparr>mint_param.assetName = ''d'', mint_param.metadata = [(''name'', ''D'')], mint_param.quantity = 3, receiver = ''addr_r''\<rparr>]
     None [] =
   (Inr ''unsigned'',
    [MintPlutusScriptV3,
     MintPlutusScriptV3, Mint 1 ''pol'' ''000de14062'', MintingScript ''mintcbor'', MintRedeemerValue (PConstr 0 []),
     MintPlutusScriptV3, Mint 1 ''pol'' ''000643b062'', MintingScript ''mintcbor'', MintRedeemerValue (PConstr 0 []),
     TxOut ''addr_s'' [\<lparr>unit = ''pol000643b062'', quantity = 1\<rparr>],
     TxOutInlineDatumValue (PConstr 0 [PMap [(''name'', ''B'')], PInt 1]),
     MintPlutusScriptV3, Mint 2 ''pol'' ''000de14063'', MintingScript ''mintcbor'', MintRedeemerValue (PConstr 0 []),
     MintPlutusScriptV3, Mint 1 ''pol'' ''000643b063'', MintingScript ''mintcbor'', MintRedeemerValue (PConstr 0 []),
     TxOut ''addr_s'' [\<lparr>unit = ''pol000643b063'', quantity = 1\<rparr>],
     TxOutInlineDatumValue (PConstr 0 [PMap [(''name'', ''C'')], PInt 1]),
     MintPlutusScriptV3, Mint 3 ''pol'' ''000de14064'', MintingScript ''mintcbor'', MintRedeemerValue (PConstr 0 []),
     MintPlutusScriptV3, Mint 1 ''pol'' ''000643b064'', MintingScript ''mintcbor'', MintRedeemerValue (PConstr 0 []),
     TxOut ''addr_s'' [\<lparr>unit = ''pol000643b064'', quantity = 1\<rparr>],
     TxOutInlineDatumValue (PConstr 0 [PMap [(''name'', ''D'')], PInt 1]),
     TxOut ''addr_r'' [\<lparr>unit = ''pol000de14062'', quantity = 1\<rparr>, \<lparr>unit = ''pol000de14064'', quantity = 3\<rparr>],
     TxOut ''addr_w'' [\<lparr>unit = ''pol000de14063'', quantity = 2\<rparr>],
     ChangeAddress ''addr_w'', RequiredSignerHash ''pkh_w'', SelectUtxosFrom [ex_wallet_utxo],
     TxInCollateral ''tx2'' 0 [\<lparr>unit = ''lovelace'', quantity = 5000000\<rparr>,
                               \<lparr>unit = ''pol000de14061'', quantity = 5\<rparr>] ''addr_w'',
     SetNetwork ''preview''])"
proof -
  let ?ps = "[\<lparr>mint_param.assetName = ''b'', mint_param.metadata = [(''name'', ''B'')], mint_param.quantity = 1, receiver = ''addr_r''\<rparr>,
      \<lparr>mint_param.assetName = ''c'', mint_param.metadata = [(''name'', ''C'')], mint_param.quantity = 2, receiver = []\<rparr>,
      \<lparr>mint_param.assetName = ''d'', mint_param.metadata = [(''name'', ''D'')], mint_param.quantity = 3, receiver = ''addr_r''\<rparr>]"
  obtain r tx' where m: "mint ex_cfg (ex_adapter ex_chain) ?ps None [] = (r, tx')"
    by (metis surj_pair)
  have r: "r = Inr ''unsigned''"
    using m
    by (simp add: mint_unfold [OF ex_wallet] ex_ref_b ex_ref_c ex_ref_d hasPlutusData_def Let_def
          mint_asset_def split: prod.splits option.splits)
  have tx': "tx' = snd (mint ex_cfg (ex_adapter ex_chain) ?ps None [])" using m by simp
  show ?thesis
    using mint_outputs_coalesced [OF ex_wallet m [unfolded r]]
    unfolding m r
    by (simp add: ex_ref_b ex_ref_c ex_ref_d hasPlutusData_def inputInstrs_def mintInstrs_def
          coalescedOutputs_def firstOccurrences_def receiverKeyOf_def userAsset_def
          hex_b hex_c hex_d CIP68_100_def CIP68_222_def metadataToCip68_def ex_wallet_utxo_def)
qed

subsection \<open>The batch-mint handler validates before it calls out\<close>

lemma get_prop_nonnull: "item \<noteq> JNull \<Longrightarrow> get_prop (Some item) k = Inr (member item k)"
  by (cases item) (simp_all add: member_def)

lemma completeItem_nonnull: "completeItem item \<Longrightarrow> item \<noteq> JNull"
  by (auto simp: completeItem_def member_def)

lemma check_items_complete: "\<forall>item\<in>set xs. completeItem item \<Longrightarrow> check_items xs = None"
proof (induction xs)
  case Nil
  then show ?case by simp
next
  case (Cons x xs)
  then have "x \<noteq> JNull" and c: "completeItem x" by (auto dest: completeItem_nonnull)
  then show ?case using Cons by (simp add: get_prop_nonnull completeItem_def)
qed

lemma check_items_incomplete:
  "JNull \<notin> set xs \<Longrightarrow> \<exists>item\<in>set xs. \<not> completeItem item \<Longrightarrow>
   check_items xs = Some (Response400 ''Each item must have: asset_name, metadata, receiver'')"
proof (induction xs)
  case Nil
  then show ?case by simp
next
  case (Cons x xs)
  then have nn: "x \<noteq> JNull" by auto
  show ?case
  proof (cases "completeItem x")
    case True
    with Cons have "check_items xs = Some (Response400 ''Each item must have: asset_name, metadata, receiver'')"
      by auto
    then show ?thesis using True by (simp add: get_prop_nonnull [OF nn] completeItem_def)
  next
    case False
    then show ?thesis by (auto simp: get_prop_nonnull [OF nn] completeItem_def)
  qed
qed

text \<open>
  C6, as the source has it. For a request whose body has an \<open>items\<close> array: when the array is empty, or has
  more than 15 items, or has an item that lacks \<open>asset_name\<close>, \<open>metadata\<close> or
  \<open>receiver\<close> (the items being JSON values other than \<open>null\<close>), the handler answers 400
  and has called neither the provider, the wallet nor the builder. When the request names a
  course and has between 1 and 15 items, all of them complete, the validation passes: the
  handler goes on to the chain, starting with the provider, and does not answer 400.
\<close>

theorem batchMint_validation:
  assumes "get_prop body ''course'' = Inr course"
      and "get_prop body ''items'' = Inr (Some (JArr xs))"
  shows "(xs = [] \<or> 15 < length xs \<or> (JNull \<notin> set xs \<and> (\<exists>item\<in>set xs. \<not> completeItem item)) \<longrightarrow>
            (\<exists>msg. batchMint w body = (Some (Response400 msg), []))) \<and>
         (truthy course \<and> xs \<noteq> [] \<and> length xs \<le> 15 \<and> (\<forall>item\<in>set xs. completeItem item) \<longrightarrow>
            batchMint w body = batchMint_chain w course xs \<and>
            (\<exists>cs. snd (batchMint_chain w course xs) = NewBlockfrostProvider # cs) \<and>
            (\<forall>msg. fst (batchMint_chain w course xs) \<noteq> Some (Response400 msg)))"
proof -
  have rej: "\<exists>msg. batchMint w body = (Some (Response400 msg), [])"
    if "xs = [] \<or> 15 < length xs \<or> (JNull \<notin> set xs \<and> (\<exists>item\<in>set xs. \<not> completeItem item))"
  proof -
    show ?thesis
    proof (cases "\<not> truthy course \<or> xs = []")
      case True
      then show ?thesis using assms by (auto simp: batchMint_def)
    next
      case ok: False
      show ?thesis
      proof (cases "15 < length xs")
        case True
        then show ?thesis using assms ok by (simp add: batchMint_def)
      next
        case False
        with that ok have "JNull \<notin> set xs" "\<exists>item\<in>set xs. \<not> completeItem item" by auto
        from check_items_incomplete [OF this]
        show ?thesis using assms ok False by (simp add: batchMint_def)
      qed
    qed
  qed
  have acc: "batchMint w body = batchMint_chain w course xs \<and>
            (\<exists>cs. snd (batchMint_chain w course xs) = NewBlockfrostProvider # cs) \<and>
            (\<forall>msg. fst (batchMint_chain w course xs) \<noteq> Some (Response400 msg))"
    if "truthy course" "xs \<noteq> []" "length xs \<le> 15" "\<forall>item\<in>set xs. completeItem item"
  proof -
    have 1: "batchMint w body = batchMint_chain w course xs"
      using that assms check_items_complete [of xs] by (simp add: batchMint_def)
    have 2: "\<exists>cs. snd (batchMint_chain w course xs) = NewBlockfrostProvider # cs"
      by (simp add: batchMint_chain_def Let_def split: sum.splits)
    have 3: "fst (batchMint_chain w course xs) \<noteq> Some (Response400 msg)" for msg
      by (simp add: batchMint_chain_def Let_def split: sum.splits)
    show ?thesis using 1 2 3 by blast
  qed
  show ?thesis using rej acc by blast
qed

text \<open>
Sixteen items, an item without receiver, and a single complete item.
\<close>

theorem batchMint_validation_witness:
  "batchMint ex_world (Some (JObj [(''course'', JStr ''c''), (''items'', JArr (replicate 16 ex_item))])) =
     (Some (Response400 ''Maximum 15 items per batch (Cardano tx size limit)''), []) \<and>
   batchMint ex_world (Some (JObj [(''course'', JStr ''c''),
       (''items'', JArr [ex_item, JObj [(''asset_name'', JStr ''c''), (''metadata'', JObj [])]])])) =
     (Some (Response400 ''Each item must have: asset_name, metadata, receiver''), []) \<and>
   batchMint ex_world (Some (JObj [(''course'', JStr ''c''), (''items'', JArr [ex_item])])) =
     (Some (Response200 ''hash'' ''pol'' 1 [Some (JStr ''b'')]),
      [NewBlockfrostProvider, NewMeshWallet, GetChangeAddress, NewMeshTxBuilder (Some (JStr ''c'')) ''addr_w'',
       BuilderMint [\<lparr>req_assetName = Some (JStr ''b''), req_metadata = Some (JObj [(''name'', JStr ''B'')]),
                     req_quantity = ''1'', req_receiver = Some (JStr ''addr_r'')\<rparr>],
       SignTx ''unsigned'', SubmitTx ''signed'', OnTxConfirmed ''hash''])"
proof -
  let ?b16 = "Some (JObj [(''course'', JStr ''c''), (''items'', JArr (replicate 16 ex_item))])"
  let ?bad = "JObj [(''asset_name'', JStr ''c''), (''metadata'', JObj [])]"
  let ?b2 = "Some (JObj [(''course'', JStr ''c''), (''items'', JArr [ex_item, ?bad])])"
  let ?b1 = "Some (JObj [(''course'', JStr ''c''), (''items'', JArr [ex_item])])"
  have c: "completeItem ex_item" by (simp add: completeItem_def member_def ex_item_def)
  have nc: "\<not> completeItem ?bad" by (simp add: completeItem_def member_def)
  have a16: "get_prop ?b16 ''course'' = Inr (Some (JStr ''c''))"
            "get_prop ?b16 ''items'' = Inr (Some (JArr (replicate 16 ex_item)))" by simp_all
  have a2: "get_prop ?b2 ''course'' = Inr (Some (JStr ''c''))"
           "get_prop ?b2 ''items'' = Inr (Some (JArr [ex_item, ?bad]))" by simp_all
  have a1: "get_prop ?b1 ''course'' = Inr (Some (JStr ''c''))"
           "get_prop ?b1 ''items'' = Inr (Some (JArr [ex_item]))" by simp_all
  have r16: "\<exists>msg. batchMint ex_world ?b16 = (Some (Response400 msg), [])"
    using batchMint_validation [OF a16, of ex_world] by simp
  have r2: "\<exists>msg. batchMint ex_world ?b2 = (Some (Response400 msg), [])"
    using batchMint_validation [OF a2, of ex_world] c nc by (simp add: ex_item_def)
  have r1: "batchMint ex_world ?b1 = batchMint_chain ex_world (Some (JStr ''c'')) [ex_item]"
    using batchMint_validation [OF a1, of ex_world] c by simp
  have e16: "batchMint ex_world ?b16 = (Some (Response400 ''Maximum 15 items per batch (Cardano tx size limit)''), [])"
    using r16 by (simp add: batchMint_def)
  have e2: "batchMint ex_world ?b2 = (Some (Response400 ''Each item must have: asset_name, metadata, receiver''), [])"
    using r2 by (simp add: batchMint_def ex_item_def)
  have e1: "batchMint_chain ex_world (Some (JStr ''c'')) [ex_item] =
     (Some (Response200 ''hash'' ''pol'' 1 [Some (JStr ''b'')]),
      [NewBlockfrostProvider, NewMeshWallet, GetChangeAddress, NewMeshTxBuilder (Some (JStr ''c'')) ''addr_w'',
       BuilderMint [\<lparr>req_assetName = Some (JStr ''b''), req_metadata = Some (JObj [(''name'', JStr ''B'')]),
                     req_quantity = ''1'', req_receiver = Some (JStr ''addr_r'')\<rparr>],
       SignTx ''unsigned'', SubmitTx ''signed'', OnTxConfirmed ''hash''])"
    by (simp add: batchMint_chain_def ex_world_def to_request_def member_def ex_item_def Let_def)
  show ?thesis using e16 e2 r1 e1 by simp
qed

text \<open>
  The course is part of the same validation: a request with one complete item and no
  course is answered 400.
\<close>

theorem batchMint_no_course_counterexample:
  "completeItem ex_item \<and>
   batchMint ex_world (Some (JObj [(''items'', JArr [ex_item])])) =
     (Some (Response400 ''Missing required fields: course, items (array)''), [])"
  by (simp add: batchMint_def completeItem_def member_def ex_item_def)

end
